theory Spec2Isabelle
  imports Main
begin

section \<open>The ATAC-seq workflow driver (pipelines/atacseq.py)\<close>

text \<open>
  The driver \<open>process(args, prj, sample)\<close> is a straight-line script. It builds one
  command after another with the toolkit (\<open>tk.*\<close>), hands most of them to the step
  executor (\<open>pipe.call_lock\<close>), registers intermediate files for disposal
  (\<open>pipe.clean_add\<close>) and calls two toolkit functions directly. The embedding keeps
  this shape: a run state is threaded through the blocks of the script in source order,
  and a raise leaves the script with the state reached so far.
\<close>

subsection \<open>Sample, options and project configuration\<close>

text \<open>
  \<open>sample.unmappedBam\<close> is either one path or a list of paths; the script tests
  \<open>type(sample.unmappedBam) == list\<close>.
\<close>

datatype raw_input = Path string | PathList "string list"

record sample_dirs =
  sampleRoot :: string
  unmapped_dir :: string
  peaks_dir :: string

record sample =
  name :: string
  dirs :: sample_dirs
  unmappedBam :: raw_input
  unmapped :: string
  paired :: bool
  tagmented :: bool
  genome :: string
  fastq :: string
  fastq1 :: string
  fastq2 :: string
  fastqUnpaired :: string
  trimmed :: string
  trimmed1 :: string
  trimmed2 :: string
  trimmed1Unpaired :: string
  trimmed2Unpaired :: string
  trimlog :: string
  mapped :: string
  alnRates :: string
  alnMetrics :: string
  filtered :: string
  dupsMetrics :: string
  filteredshifted :: string
  bigwig :: string
  trackURL :: string
  trackColour :: string
  insertplot :: string
  insertdata :: string
  coverage :: string
  qc :: string
  qcPlot :: string
  peaks :: string
  frip :: string

record args =
  dry_run :: bool
  trimmer :: string
  cpus :: int
  quality :: int
  maxinsert :: int

text \<open>
  \<open>prj.config\<close> is a nested dictionary. The keys the script writes as literals
  (\<open>"adapters"\<close>, \<open>"url"\<close>, \<open>"annotations"\<close>, \<open>"genomes"\<close>, \<open>"chrsizes"\<close>,
  \<open>"genomewindows"\<close>) are record fields; the innermost dictionaries are indexed by
  \<open>sample.genome\<close>, so they are maps and a missing genome is a \<open>KeyError\<close>.
\<close>

record annotations =
  genomes :: "string \<rightharpoonup> string"
  chrsizes :: "string \<rightharpoonup> string"
  genomewindows :: "string \<rightharpoonup> string"

record config =
  adapters :: string
  url :: string
  annotations :: annotations

record project_dirs =
  html :: string
  root :: string

record project =
  prj_name :: string
  prj_dirs :: project_dirs
  config :: config

subsection \<open>Path and string helpers of the Python library\<close>

text \<open>\<open>os.path.join(a, b)\<close> on POSIX, for two components.\<close>

definition os_path_join :: "string \<Rightarrow> string \<Rightarrow> string" where
  "os_path_join a b =
     (if b \<noteq> [] \<and> hd b = CHR ''/'' then b
      else if a = [] \<or> last a = CHR ''/'' then a @ b
      else a @ ''/'' @ b)"

text \<open>\<open>"trackHub_{0}.txt".format(g)\<close> and \<open>"ucsc_tracks_{0}.html".format(g)\<close>.\<close>

definition trackHub_txt :: "string \<Rightarrow> string" where
  "trackHub_txt g = ''trackHub_'' @ g @ ''.txt''"

definition ucsc_tracks_html :: "string \<Rightarrow> string" where
  "ucsc_tracks_html g = ''ucsc_tracks_'' @ g @ ''.html''"

text \<open>\<open>"/".join([a, b, c])\<close>.\<close>

definition slash_join3 :: "string \<Rightarrow> string \<Rightarrow> string \<Rightarrow> string" where
  "slash_join3 a b c = a @ ''/'' @ b @ ''/'' @ c"

subsection \<open>Toolkit calls\<close>

text \<open>
  The toolkit module is a catalogue of command builders whose bodies are not part of the
  driver. A call is kept as the builder's name with the arguments the driver passes, in
  the order of the keyword arguments in the source:
  \<^item> \<open>mergeBams inputBams outputBam\<close>
  \<^item> \<open>fastqc inputBam outputDir sampleName\<close>
  \<^item> \<open>bam2fastq inputBam outputFastq outputFastq2 unpairedFastq\<close>
  \<^item> \<open>trimmomatic inputFastq1 inputFastq2 outputFastq1 outputFastq1unpaired outputFastq2
       outputFastq2unpaired cpus adapters log\<close>
  \<^item> \<open>skewer inputFastq1 inputFastq2 outputPrefix outputFastq1 outputFastq2 trimLog cpus
       adapters\<close>
  \<^item> \<open>bowtie2Map inputFastq1 inputFastq2 outputBam log metrics genomeIndex maxInsert cpus\<close>
  \<^item> \<open>filterReads inputBam outputBam metricsFile paired cpus Q\<close>
  \<^item> \<open>shiftReads inputBam genome outputBam\<close>
  \<^item> \<open>indexBam inputBam\<close>
  \<^item> \<open>bamToBigWig inputBam outputBigWig genomeSizes genome tagmented normalize\<close>
  \<^item> \<open>addTrackToHub sampleName trackURL trackHub colour\<close>
  \<^item> \<open>linkToTrackHub trackHubURL fileName genome\<close>
  \<^item> \<open>plotInsertSizesFit bam plot outputCSV\<close>
  \<^item> \<open>genomeWideCoverage inputBam genomeWindows output\<close>
  \<^item> \<open>peakTools inputBam output plot cpus\<close>
  \<^item> \<open>macs2CallPeaksATACSeq treatmentBam outputDir sampleName genome\<close>
  \<^item> \<open>calculateFRiP inputBam inputBed output\<close>
  An argument passed as \<open>None\<close> is \<open>None\<close> of an option.
\<close>

datatype call =
    mergeBams "string list" string
  | fastqc raw_input string string
  | bam2fastq raw_input string "string option" "string option"
  | trimmomatic string "string option" string "string option" "string option"
      "string option" int string string
  | skewer string "string option" string string "string option" string int string
  | bowtie2Map string "string option" string string string string int int
  | filterReads string string string bool int int
  | shiftReads string string string
  | indexBam string
  | bamToBigWig string string string string bool bool
  | addTrackToHub string string string string
  | linkToTrackHub string string string
  | plotInsertSizesFit string string string
  | genomeWideCoverage string string string
  | peakTools string string string int
  | macs2CallPeaksATACSeq string string string string
  | calculateFRiP string string string

text \<open>The name of the toolkit function a call goes to.\<close>

fun tool :: "call \<Rightarrow> string" where
  "tool (mergeBams _ _) = ''mergeBams''"
| "tool (fastqc _ _ _) = ''fastqc''"
| "tool (bam2fastq _ _ _ _) = ''bam2fastq''"
| "tool (trimmomatic _ _ _ _ _ _ _ _ _) = ''trimmomatic''"
| "tool (skewer _ _ _ _ _ _ _ _) = ''skewer''"
| "tool (bowtie2Map _ _ _ _ _ _ _ _) = ''bowtie2Map''"
| "tool (filterReads _ _ _ _ _ _) = ''filterReads''"
| "tool (shiftReads _ _ _) = ''shiftReads''"
| "tool (indexBam _) = ''indexBam''"
| "tool (bamToBigWig _ _ _ _ _ _) = ''bamToBigWig''"
| "tool (addTrackToHub _ _ _ _) = ''addTrackToHub''"
| "tool (linkToTrackHub _ _ _) = ''linkToTrackHub''"
| "tool (plotInsertSizesFit _ _ _) = ''plotInsertSizesFit''"
| "tool (genomeWideCoverage _ _ _) = ''genomeWideCoverage''"
| "tool (peakTools _ _ _ _) = ''peakTools''"
| "tool (macs2CallPeaksATACSeq _ _ _ _) = ''macs2CallPeaksATACSeq''"
| "tool (calculateFRiP _ _ _) = ''calculateFRiP''"

subsection \<open>Run state, events and the outside world\<close>

text \<open>
  What is outside the script is a parameter of the run: which paths exist, how a
  command or a toolkit function ends when it is executed (it succeeds, it fails, or the
  user interrupts it), and whether \<open>os.makedirs\<close> fails on a directory.
\<close>

datatype tool_outcome = Succeeds | Fails | Interrupted

record env =
  path_exists :: "string \<Rightarrow> bool"
  outcome :: "call \<Rightarrow> tool_outcome"
  makedirs_fails :: "string \<Rightarrow> bool"
  targetless_skipped :: bool

text \<open>
  The results of a step are \<open>Skipped\<close>, \<open>Completed\<close> and \<open>Failed\<close>; \<open>Killed\<close> marks
  the step during which the run was interrupted, which never returned a result.
\<close>

datatype step_result = Skipped | Completed | Failed | Killed

text \<open>
  The observable actions of a run, in order: a progress marker, a step handed to the
  executor (command, target, lock name, \<open>nofail\<close>, result), a toolkit function called
  directly, a call of \<open>os.makedirs\<close>.
\<close>

datatype event =
    Timestamp string
  | Step call "string option" "string option" bool step_result
  | Toolkit call
  | Makedirs string

datatype raised =
    ToolFailure call
  | ToolkitError call
  | KeyError string
  | OSError string
  | KeyboardInterrupt

record run_state =
  the_sample :: sample
  events :: "event list"
  registry :: "(string \<times> bool) list"

text \<open>
  A block of the script either falls through to the next one with a new state (\<open>Inr\<close>)
  or raises (\<open>Inl\<close>, with the state reached).
\<close>

type_synonym result = "(raised \<times> run_state) + run_state"

definition log_event :: "event \<Rightarrow> run_state \<Rightarrow> run_state" where
  "log_event ev st = st\<lparr>events := events st @ [ev]\<rparr>"

text \<open>Statements in sequence: the first raise ends the sequence.\<close>

fun run_stages :: "(run_state \<Rightarrow> result) list \<Rightarrow> run_state \<Rightarrow> result" where
  "run_stages [] st = Inr st"
| "run_stages (f # fs) st =
     (case f st of Inl x \<Rightarrow> Inl x | Inr st' \<Rightarrow> run_stages fs st')"

definition final_state :: "result \<Rightarrow> run_state" where
  "final_state r = (case r of Inl (x, st) \<Rightarrow> st | Inr st \<Rightarrow> st)"

subsection \<open>The step executor\<close>

text \<open>
  Modelled from the spec: the step executor \<open>Pypiper\<close> (\<open>timestamp\<close>, \<open>call_lock\<close>,
  \<open>clean_add\<close>) is imported by the driver and is not under src/. Section 4.1 of the
  specification: a step whose declared output exists returns \<open>Skipped\<close> without
  executing anything; otherwise the command is executed; on a non-zero exit a \<open>nofail\<close>
  step returns \<open>Failed\<close> and the workflow goes on, any other step aborts the workflow;
  on a zero exit the step is \<open>Completed\<close>. The specification does not say whether a step
  that declares no output artifact (only a lock name) counts as complete; this is the
  parameter \<open>targetless_skipped\<close>. An interruption of the running command reaches the
  driver as \<open>KeyboardInterrupt\<close>, whatever \<open>nofail\<close> says. Locks are not modelled: a run
  is a single thread of control. The driver passes \<open>shell=True\<close> with every step, so the
  flag is left out.
\<close>

definition is_complete :: "env \<Rightarrow> string option \<Rightarrow> bool" where
  "is_complete e target =
     (case target of Some t \<Rightarrow> path_exists e t | None \<Rightarrow> targetless_skipped e)"

definition step_result_of :: "env \<Rightarrow> call \<Rightarrow> string option \<Rightarrow> step_result" where
  "step_result_of e cmd target =
     (if is_complete e target then Skipped
      else case outcome e cmd of
             Succeeds \<Rightarrow> Completed
           | Fails \<Rightarrow> Failed
           | Interrupted \<Rightarrow> Killed)"

definition step_raises :: "env \<Rightarrow> call \<Rightarrow> string option \<Rightarrow> bool \<Rightarrow> raised option" where
  "step_raises e cmd target nofail =
     (if is_complete e target then None
      else case outcome e cmd of
             Succeeds \<Rightarrow> None
           | Fails \<Rightarrow> if nofail then None else Some (ToolFailure cmd)
           | Interrupted \<Rightarrow> Some KeyboardInterrupt)"

definition step_event ::
  "env \<Rightarrow> call \<Rightarrow> string option \<Rightarrow> string option \<Rightarrow> bool \<Rightarrow> event" where
  "step_event e cmd target lock_name nofail =
     Step cmd target lock_name nofail (step_result_of e cmd target)"

definition call_lock ::
  "env \<Rightarrow> call \<Rightarrow> string option \<Rightarrow> string option \<Rightarrow> bool \<Rightarrow> run_state \<Rightarrow> result" where
  "call_lock e cmd target lock_name nofail st =
     (let st' = log_event (step_event e cmd target lock_name nofail) st
      in case step_raises e cmd target nofail of
           None \<Rightarrow> Inr st'
         | Some x \<Rightarrow> Inl (x, st'))"

definition timestamp :: "string \<Rightarrow> run_state \<Rightarrow> result" where
  "timestamp msg st = Inr (log_event (Timestamp msg) st)"

definition clean_add :: "string \<Rightarrow> bool \<Rightarrow> run_state \<Rightarrow> result" where
  "clean_add path conditional st = Inr (st\<lparr>registry := registry st @ [(path, conditional)]\<rparr>)"

subsection \<open>Statements of the driver that do not go through the executor\<close>

text \<open>
  A toolkit function called directly (\<open>tk.linkToTrackHub\<close>, \<open>tk.plotInsertSizesFit\<close>)
  is executed on every run. It returns or it raises, and the script has no handler.
\<close>

definition toolkit_call :: "env \<Rightarrow> call \<Rightarrow> run_state \<Rightarrow> result" where
  "toolkit_call e c st =
     (let st' = log_event (Toolkit c) st
      in case outcome e c of
           Succeeds \<Rightarrow> Inr st'
         | Fails \<Rightarrow> Inl (ToolkitError c, st')
         | Interrupted \<Rightarrow> Inl (KeyboardInterrupt, st'))"

text \<open>
  \<open>if not os.path.exists(d): os.makedirs(d)\<close>. The script has no handler around
  \<open>os.makedirs\<close>: when it fails, its \<open>OSError\<close> leaves \<open>process\<close>.
\<close>

definition ensure_dir :: "env \<Rightarrow> string \<Rightarrow> run_state \<Rightarrow> result" where
  "ensure_dir e d st =
     (if path_exists e d then Inr st
      else if makedirs_fails e d then Inl (OSError d, log_event (Makedirs d) st)
      else Inr (log_event (Makedirs d) st))"

text \<open>\<open>d[k]\<close> for the statements that follow: a missing key raises.\<close>

definition with_key ::
  "(string \<rightharpoonup> string) \<Rightarrow> string \<Rightarrow> (string \<Rightarrow> run_state \<Rightarrow> result) \<Rightarrow> run_state \<Rightarrow> result" where
  "with_key d k body st = (case d k of None \<Rightarrow> Inl (KeyError k, st) | Some v \<Rightarrow> body v st)"

text \<open>\<open>sample.unmappedBam = sample.unmapped\<close>\<close>

definition set_unmappedBam :: "run_state \<Rightarrow> result" where
  "set_unmappedBam st =
     Inr (st\<lparr>the_sample := (the_sample st)\<lparr>unmappedBam := Path (unmapped (the_sample st))\<rparr>\<rparr>)"

subsection \<open>The commands the driver builds\<close>

text \<open>
  Each block of \<open>process\<close> assigns \<open>cmd = tk.f(...)\<close> and hands \<open>cmd\<close> to the executor.
  The assignments, in source order; \<open>s\<close> is the sample as it is when the block runs.
\<close>

definition cmd_mergeBams :: "string list \<Rightarrow> sample \<Rightarrow> call" where
  "cmd_mergeBams bams s = mergeBams bams (unmapped s)"

definition cmd_fastqc :: "sample \<Rightarrow> call" where
  "cmd_fastqc s = fastqc (unmappedBam s) (sampleRoot (dirs s)) (name s)"

definition fastqc_target :: "sample \<Rightarrow> string" where
  "fastqc_target s = os_path_join (sampleRoot (dirs s)) (name s @ ''_fastqc.zip'')"

definition cmd_bam2fastq :: "sample \<Rightarrow> call" where
  "cmd_bam2fastq s =
     bam2fastq (unmappedBam s)
       (if paired s then fastq1 s else fastq s)
       (if paired s then Some (fastq2 s) else None)
       (if paired s then Some (fastqUnpaired s) else None)"

definition cmd_trimmomatic :: "args \<Rightarrow> project \<Rightarrow> sample \<Rightarrow> call" where
  "cmd_trimmomatic a prj s =
     trimmomatic
       (if paired s then fastq1 s else fastq s)
       (if paired s then Some (fastq2 s) else None)
       (if paired s then trimmed1 s else trimmed s)
       (if paired s then Some (trimmed1Unpaired s) else None)
       (if paired s then Some (trimmed2 s) else None)
       (if paired s then Some (trimmed2Unpaired s) else None)
       (cpus a) (adapters (config prj)) (trimlog s)"

definition cmd_skewer :: "args \<Rightarrow> project \<Rightarrow> sample \<Rightarrow> call" where
  "cmd_skewer a prj s =
     skewer
       (if paired s then fastq1 s else fastq s)
       (if paired s then Some (fastq2 s) else None)
       (os_path_join (unmapped_dir (dirs s)) (name s))
       (if paired s then trimmed1 s else trimmed s)
       (if paired s then Some (trimmed2 s) else None)
       (trimlog s) (cpus a) (adapters (config prj))"

definition cmd_bowtie2Map :: "args \<Rightarrow> string \<Rightarrow> sample \<Rightarrow> call" where
  "cmd_bowtie2Map a genomeIndex s =
     bowtie2Map
       (if paired s then trimmed1 s else trimmed s)
       (if paired s then Some (trimmed2 s) else None)
       (mapped s) (alnRates s) (alnMetrics s) genomeIndex (maxinsert a) (cpus a)"

definition cmd_filterReads :: "args \<Rightarrow> sample \<Rightarrow> call" where
  "cmd_filterReads a s =
     filterReads (mapped s) (filtered s) (dupsMetrics s) (paired s) (cpus a) (quality a)"

definition cmd_shiftReads :: "sample \<Rightarrow> call" where
  "cmd_shiftReads s = shiftReads (filtered s) (genome s) (filteredshifted s)"

definition cmd_bamToBigWig :: "string \<Rightarrow> sample \<Rightarrow> call" where
  "cmd_bamToBigWig genomeSizes s =
     bamToBigWig (filteredshifted s) (bigwig s) genomeSizes (genome s) False True"

definition cmd_addTrackToHub :: "project \<Rightarrow> sample \<Rightarrow> call" where
  "cmd_addTrackToHub prj s =
     addTrackToHub (name s) (trackURL s)
       (os_path_join (html (prj_dirs prj)) (trackHub_txt (genome s))) (trackColour s)"

definition call_linkToTrackHub :: "project \<Rightarrow> sample \<Rightarrow> call" where
  "call_linkToTrackHub prj s =
     linkToTrackHub
       (slash_join3 (url (config prj)) (prj_name prj) (trackHub_txt (genome s)))
       (os_path_join (root (prj_dirs prj)) (ucsc_tracks_html (genome s)))
       (genome s)"

definition call_plotInsertSizesFit :: "sample \<Rightarrow> call" where
  "call_plotInsertSizesFit s = plotInsertSizesFit (filtered s) (insertplot s) (insertdata s)"

definition cmd_genomeWideCoverage :: "string \<Rightarrow> sample \<Rightarrow> call" where
  "cmd_genomeWideCoverage genomeWindows s =
     genomeWideCoverage (filteredshifted s) genomeWindows (coverage s)"

definition cmd_peakTools :: "args \<Rightarrow> sample \<Rightarrow> call" where
  "cmd_peakTools a s = peakTools (filteredshifted s) (qc s) (qcPlot s) (cpus a)"

definition cmd_macs2CallPeaksATACSeq :: "sample \<Rightarrow> call" where
  "cmd_macs2CallPeaksATACSeq s =
     macs2CallPeaksATACSeq (filteredshifted s) (peaks_dir (dirs s)) (name s) (genome s)"

definition cmd_calculateFRiP :: "sample \<Rightarrow> call" where
  "cmd_calculateFRiP s = calculateFRiP (filteredshifted s) (peaks s) (frip s)"

subsection \<open>The blocks of \<open>process\<close>, in source order\<close>

text \<open>Merge Bam files if more than one technical replicate.\<close>

definition stage_merge :: "env \<Rightarrow> run_state \<Rightarrow> result" where
  "stage_merge e st =
     (let s = the_sample st in
      case unmappedBam s of
        PathList bams \<Rightarrow>
          run_stages
            [timestamp ''Merging bam files from replicates'',
             call_lock e (cmd_mergeBams bams s) (Some (unmapped s)) None False,
             set_unmappedBam] st
      | Path p \<Rightarrow> Inr st)"

text \<open>Fastqc.\<close>

definition stage_fastqc :: "env \<Rightarrow> run_state \<Rightarrow> result" where
  "stage_fastqc e st =
     (let s = the_sample st in
      run_stages
        [timestamp ''Measuring sample quality with Fastqc'',
         call_lock e (cmd_fastqc s) (Some (fastqc_target s)) None False] st)"

text \<open>Convert bam to fastq.\<close>

definition stage_bam2fastq :: "env \<Rightarrow> run_state \<Rightarrow> result" where
  "stage_bam2fastq e st =
     (let s = the_sample st in
      run_stages
        ([timestamp ''Converting to Fastq format'',
          call_lock e (cmd_bam2fastq s) (Some (if paired s then fastq1 s else fastq s))
            None False]
         @ (if \<not> paired s then [clean_add (fastq s) True] else [])
         @ (if paired s
            then [clean_add (fastq1 s) True, clean_add (fastq2 s) True,
                  clean_add (fastqUnpaired s) True]
            else [])) st)"

text \<open>Trim reads: an \<open>if\<close>/\<open>elif\<close> on \<open>args.trimmer\<close> with no \<open>else\<close>.\<close>

definition stage_trim :: "args \<Rightarrow> project \<Rightarrow> env \<Rightarrow> run_state \<Rightarrow> result" where
  "stage_trim a prj e st =
     (let s = the_sample st in
      run_stages
        (timestamp ''Trimming adapters from sample'' #
         (if trimmer a = ''trimmomatic'' then
            [call_lock e (cmd_trimmomatic a prj s)
               (Some (if paired s then trimmed1 s else trimmed s)) None False]
            @ (if \<not> paired s then [clean_add (trimmed s) True]
               else [clean_add (trimmed1 s) True, clean_add (trimmed1Unpaired s) True,
                     clean_add (trimmed2 s) True, clean_add (trimmed2Unpaired s) True])
          else if trimmer a = ''skewer'' then
            [call_lock e (cmd_skewer a prj s)
               (Some (if paired s then trimmed1 s else trimmed s)) None False]
            @ (if \<not> paired s then [clean_add (trimmed s) True]
               else [clean_add (trimmed1 s) True, clean_add (trimmed2 s) True])
          else [])) st)"

text \<open>Map.\<close>

definition stage_map :: "args \<Rightarrow> project \<Rightarrow> env \<Rightarrow> run_state \<Rightarrow> result" where
  "stage_map a prj e st =
     (let s = the_sample st in
      run_stages
        [timestamp ''Mapping reads with Bowtie2'',
         with_key (genomes (annotations (config prj))) (genome s) (\<lambda>genomeIndex.
           call_lock e (cmd_bowtie2Map a genomeIndex s) (Some (mapped s)) None False),
         clean_add (mapped s) True] st)"

text \<open>Filter reads.\<close>

definition stage_filter :: "args \<Rightarrow> env \<Rightarrow> run_state \<Rightarrow> result" where
  "stage_filter a e st =
     (let s = the_sample st in
      run_stages
        [timestamp ''Filtering reads for quality'',
         call_lock e (cmd_filterReads a s) (Some (filtered s)) None False] st)"

text \<open>Shift reads.\<close>

definition stage_shift :: "env \<Rightarrow> run_state \<Rightarrow> result" where
  "stage_shift e st =
     (let s = the_sample st in
      if tagmented s then
        run_stages
          [timestamp ''Shifting reads of tagmented sample'',
           call_lock e (cmd_shiftReads s) (Some (filteredshifted s)) None False] st
      else Inr st)"

text \<open>Index bams.\<close>

definition stage_index :: "env \<Rightarrow> run_state \<Rightarrow> result" where
  "stage_index e st =
     (let s = the_sample st in
      run_stages
        ([timestamp ''Indexing bamfiles with samtools'',
          call_lock e (indexBam (mapped s)) (Some (mapped s @ ''.bai'')) None False,
          call_lock e (indexBam (filtered s)) (Some (filtered s @ ''.bai'')) None False]
         @ (if tagmented s
            then [call_lock e (indexBam (filteredshifted s))
                    (Some (filteredshifted s @ ''.bai'')) None False]
            else [])) st)"

text \<open>
  Make tracks. The track-hub entry is a step with a lock name and no target; the link to
  the track hub is a direct toolkit call.
\<close>

definition stage_tracks :: "project \<Rightarrow> env \<Rightarrow> run_state \<Rightarrow> result" where
  "stage_tracks prj e st =
     (let s = the_sample st in
      run_stages
        [timestamp ''Making bigWig tracks from bam file'',
         with_key (chrsizes (annotations (config prj))) (genome s) (\<lambda>genomeSizes.
           call_lock e (cmd_bamToBigWig genomeSizes s) (Some (bigwig s)) None False),
         call_lock e (cmd_addTrackToHub prj s) None (Some (name s @ ''addToTrackHub'')) False,
         toolkit_call e (call_linkToTrackHub prj s)] st)"

text \<open>Plot fragment distribution: a direct toolkit call.\<close>

definition stage_insertsizes :: "env \<Rightarrow> run_state \<Rightarrow> result" where
  "stage_insertsizes e st =
     (let s = the_sample st in
      run_stages
        [timestamp ''Plotting insert size distribution'',
         toolkit_call e (call_plotInsertSizesFit s)] st)"

text \<open>Count coverage genome-wide.\<close>

definition stage_coverage :: "project \<Rightarrow> env \<Rightarrow> run_state \<Rightarrow> result" where
  "stage_coverage prj e st =
     (let s = the_sample st in
      run_stages
        [timestamp ''Calculating genome-wide coverage'',
         with_key (genomewindows (annotations (config prj))) (genome s) (\<lambda>genomeWindows.
           call_lock e (cmd_genomeWideCoverage genomeWindows s) (Some (coverage s))
             None False)] st)"

text \<open>Calculate NSC, RSC: the one step with \<open>nofail=True\<close>.\<close>

definition stage_nsc_rsc :: "args \<Rightarrow> env \<Rightarrow> run_state \<Rightarrow> result" where
  "stage_nsc_rsc a e st =
     (let s = the_sample st in
      run_stages
        [timestamp ''Assessing signal/noise in sample'',
         call_lock e (cmd_peakTools a s) (Some (qcPlot s)) None True] st)"

text \<open>Call peaks.\<close>

definition stage_peaks :: "env \<Rightarrow> run_state \<Rightarrow> result" where
  "stage_peaks e st =
     (let s = the_sample st in
      run_stages
        [timestamp ''Calling peaks with MACS2'',
         ensure_dir e (peaks_dir (dirs s)),
         call_lock e (cmd_macs2CallPeaksATACSeq s) (Some (peaks s)) None False] st)"

text \<open>Calculate fraction of reads in peaks (FRiP).\<close>

definition stage_frip :: "env \<Rightarrow> run_state \<Rightarrow> result" where
  "stage_frip e st =
     (let s = the_sample st in
      run_stages
        [timestamp ''Calculating fraction of reads in peaks (FRiP)'',
         call_lock e (cmd_calculateFRiP s) (Some (frip s)) None False] st)"

subsection \<open>\<open>process\<close> and the exit status of the script\<close>

definition initial_state :: "sample \<Rightarrow> run_state" where
  "initial_state s = \<lparr>the_sample = s, events = [], registry = []\<rparr>"

definition process :: "args \<Rightarrow> project \<Rightarrow> env \<Rightarrow> sample \<Rightarrow> result" where
  "process a prj e s =
     run_stages
       [stage_merge e,
        stage_fastqc e,
        stage_bam2fastq e,
        stage_trim a prj e,
        stage_map a prj e,
        stage_filter a e,
        stage_shift e,
        stage_index e,
        stage_tracks prj e,
        stage_insertsizes e,
        stage_coverage prj e,
        stage_nsc_rsc a e,
        stage_peaks e,
        stage_frip e]
       (initial_state s)"

text \<open>
  \<open>main\<close> calls \<open>process\<close> and then \<open>sys.exit(0)\<close>; whatever \<open>process\<close> raises leaves
  \<open>main\<close> unhandled. (Loading the sample and removing the pickle file are outside the
  embedding.)
\<close>

datatype leaves = SystemExit int | Unhandled raised

definition main :: "args \<Rightarrow> project \<Rightarrow> env \<Rightarrow> sample \<Rightarrow> leaves" where
  "main a prj e s =
     (case process a prj e s of
        Inl (x, st) \<Rightarrow> Unhandled x
      | Inr st \<Rightarrow> SystemExit 0)"

text \<open>
  The \<open>__main__\<close> block: \<open>try: main(); sys.exit(0)\<close>,
  \<open>except KeyboardInterrupt: sys.exit(1)\<close>. Any other exception is not caught and the
  Python interpreter ends with status 1.
\<close>

definition exit_status :: "args \<Rightarrow> project \<Rightarrow> env \<Rightarrow> sample \<Rightarrow> int" where
  "exit_status a prj e s =
     (case main a prj e s of
        SystemExit n \<Rightarrow> n
      | Unhandled KeyboardInterrupt \<Rightarrow> 1
      | Unhandled _ \<Rightarrow> 1)"

subsection \<open>Reading a run\<close>

text \<open>The calls the driver issued (handed to the executor or made directly), in order.\<close>

fun issued :: "event list \<Rightarrow> call list" where
  "issued [] = []"
| "issued (Step c t l n r # es) = c # issued es"
| "issued (Toolkit c # es) = c # issued es"
| "issued (ev # es) = issued es"

text \<open>The calls that were really executed: a skipped step executes nothing.\<close>

fun invoked :: "event list \<Rightarrow> call list" where
  "invoked [] = []"
| "invoked (Step c t l n r # es) = (if r = Skipped then invoked es else c # invoked es)"
| "invoked (Toolkit c # es) = c # invoked es"
| "invoked (ev # es) = invoked es"

text \<open>The target artifacts declared by the steps of a run.\<close>

fun declared_targets :: "event list \<Rightarrow> string list" where
  "declared_targets [] = []"
| "declared_targets (Step c (Some t) l n r # es) = t # declared_targets es"
| "declared_targets (ev # es) = declared_targets es"

text \<open>
  A property of the states of a run, kept by every block: the sample is the one of the
  start up to \<open>unmappedBam\<close>, and every step logged with \<open>nofail=True\<close> is the
  signal/noise assessment.
\<close>

definition nofail_only :: "args \<Rightarrow> sample \<Rightarrow> run_state \<Rightarrow> bool" where
  "nofail_only a s st =
     ((\<exists>u. the_sample st = s\<lparr>unmappedBam := u\<rparr>) \<and>
      (\<forall>c t l r. Step c t l True r \<in> set (events st) \<longrightarrow> c = cmd_peakTools a s))"

text \<open>
  The file paths a sample descriptor knows: the raw input (one path or the paths of the
  replicates) and every path-valued field.
\<close>

fun raw_paths :: "raw_input \<Rightarrow> string list" where
  "raw_paths (Path p) = [p]"
| "raw_paths (PathList ps) = ps"

definition known_paths :: "sample \<Rightarrow> string list" where
  "known_paths s =
     raw_paths (unmappedBam s) @
     [unmapped s, fastq s, fastq1 s, fastq2 s, fastqUnpaired s, trimmed s, trimmed1 s,
      trimmed2 s, trimmed1Unpaired s, trimmed2Unpaired s, trimlog s, mapped s, alnRates s,
      alnMetrics s, filtered s, dupsMetrics s, filteredshifted s, bigwig s, insertplot s,
      insertdata s, coverage s, qc s, qcPlot s, peaks s, frip s,
      sampleRoot (dirs s), unmapped_dir (dirs s), peaks_dir (dirs s)]"

subsection \<open>A concrete sample, project and environments\<close>

text \<open>
  The scenario of the specification: a paired-end, tagmented sample with two raw input
  files, trimmed with trimmomatic.
\<close>

definition demo_sample :: sample where
  "demo_sample =
     \<lparr>name = ''s1'',
      dirs = \<lparr>sampleRoot = ''/d/s1'', unmapped_dir = ''/d/s1/u'', peaks_dir = ''/d/s1/p''\<rparr>,
      unmappedBam = PathList [''/raw/a.bam'', ''/raw/b.bam''],
      unmapped = ''/d/s1/u/s1.bam'',
      paired = True,
      tagmented = True,
      genome = ''hg19'',
      fastq = ''s1.fq'',
      fastq1 = ''s1.1.fq'',
      fastq2 = ''s1.2.fq'',
      fastqUnpaired = ''s1.u.fq'',
      trimmed = ''s1.t.fq'',
      trimmed1 = ''s1.1.t.fq'',
      trimmed2 = ''s1.2.t.fq'',
      trimmed1Unpaired = ''s1.1u.t.fq'',
      trimmed2Unpaired = ''s1.2u.t.fq'',
      trimlog = ''s1.trimlog'',
      mapped = ''s1.bam'',
      alnRates = ''s1.alnRates'',
      alnMetrics = ''s1.alnMetrics'',
      filtered = ''s1.f.bam'',
      dupsMetrics = ''s1.dups'',
      filteredshifted = ''s1.fs.bam'',
      bigwig = ''s1.bw'',
      trackURL = ''http://h/s1.bw'',
      trackColour = ''0,0,0'',
      insertplot = ''s1.ins.pdf'',
      insertdata = ''s1.ins.csv'',
      coverage = ''s1.cov'',
      qc = ''s1.qc'',
      qcPlot = ''s1.qc.pdf'',
      peaks = ''s1.narrowPeak'',
      frip = ''s1.frip''\<rparr>"

definition demo_args :: args where
  "demo_args =
     \<lparr>dry_run = False, trimmer = ''trimmomatic'', cpus = 4, quality = 30, maxinsert = 2000\<rparr>"

definition demo_project :: project where
  "demo_project =
     \<lparr>prj_name = ''p'',
      prj_dirs = \<lparr>html = ''/www'', root = ''/prj''\<rparr>,
      config = \<lparr>adapters = ''ad.fa'', url = ''http://h'',
                annotations = \<lparr>genomes = [''hg19'' \<mapsto> ''/g/hg19''],
                                chrsizes = [''hg19'' \<mapsto> ''/g/hg19.sizes''],
                                genomewindows = [''hg19'' \<mapsto> ''/g/hg19.win'']\<rparr>\<rparr>\<rparr>"

text \<open>Nothing exists yet and every tool succeeds.\<close>

definition fresh_env :: env where
  "fresh_env =
     \<lparr>path_exists = (\<lambda>p. False), outcome = (\<lambda>c. Succeeds),
      makedirs_fails = (\<lambda>d. False), targetless_skipped = False\<rparr>"

text \<open>
  After a complete run: every path exists and every tool succeeds. A step without a
  target counts as complete, the reading most favourable to skipping.
\<close>

definition stocked_env :: env where
  "stocked_env =
     \<lparr>path_exists = (\<lambda>p. True), outcome = (\<lambda>c. Succeeds),
      makedirs_fails = (\<lambda>d. False), targetless_skipped = True\<rparr>"

text \<open>
  Nothing exists yet and one toolkit function fails, or is interrupted; in the last
  environment the peaks directory cannot be created.
\<close>

definition failing_env :: "string \<Rightarrow> env" where
  "failing_env f =
     \<lparr>path_exists = (\<lambda>p. False),
      outcome = (\<lambda>c. if tool c = f then Fails else Succeeds),
      makedirs_fails = (\<lambda>d. False),
      targetless_skipped = False\<rparr>"

definition interrupted_env :: "string \<Rightarrow> env" where
  "interrupted_env f =
     \<lparr>path_exists = (\<lambda>p. False),
      outcome = (\<lambda>c. if tool c = f then Interrupted else Succeeds),
      makedirs_fails = (\<lambda>d. False),
      targetless_skipped = False\<rparr>"

definition unwritable_env :: env where
  "unwritable_env =
     \<lparr>path_exists = (\<lambda>p. False), outcome = (\<lambda>c. Succeeds),
      makedirs_fails = (\<lambda>d. True), targetless_skipped = False\<rparr>"

section \<open>Reasoning about runs\<close>

subsection \<open>Sequencing\<close>

lemma run_stages_append:
  "run_stages (fs @ gs) st =
     (case run_stages fs st of Inl x \<Rightarrow> Inl x | Inr st' \<Rightarrow> run_stages gs st')"
  by (induction fs arbitrary: st) (auto split: sum.splits)

lemma run_stages_Cons_Inr:
  "(run_stages (f # fs) st = Inr st'') = (\<exists>st'. f st = Inr st' \<and> run_stages fs st' = Inr st'')"
  by (auto split: sum.splits)

lemma run_stages_Nil_Inr: "(run_stages [] st = Inr st') = (st' = st)"
  by auto

subsection \<open>When a statement falls through\<close>

lemma timestamp_Inr:
  "(timestamp m st = Inr st') = (st' = st\<lparr>events := events st @ [Timestamp m]\<rparr>)"
  by (auto simp: timestamp_def log_event_def)

lemma clean_add_Inr:
  "(clean_add p c st = Inr st') = (st' = st\<lparr>registry := registry st @ [(p, c)]\<rparr>)"
  by (auto simp: clean_add_def)

lemma set_unmappedBam_Inr:
  "(set_unmappedBam st = Inr st') =
     (st' = st\<lparr>the_sample := (the_sample st)\<lparr>unmappedBam := Path (unmapped (the_sample st))\<rparr>\<rparr>)"
  by (auto simp: set_unmappedBam_def)

lemma ensure_dir_Inr:
  "(ensure_dir e d st = Inr st') =
     ((path_exists e d \<or> \<not> makedirs_fails e d) \<and>
      st' = st\<lparr>events := events st @ (if path_exists e d then [] else [Makedirs d])\<rparr>)"
  by (auto simp: ensure_dir_def log_event_def)

lemma call_lock_Inr:
  "(call_lock e c t l n st = Inr st') =
     (step_raises e c t n = None \<and> st' = st\<lparr>events := events st @ [step_event e c t l n]\<rparr>)"
  by (auto simp: call_lock_def Let_def log_event_def split: option.splits)

lemma toolkit_call_Inr:
  "(toolkit_call e c st = Inr st') =
     (outcome e c = Succeeds \<and> st' = st\<lparr>events := events st @ [Toolkit c]\<rparr>)"
  by (auto simp: toolkit_call_def Let_def log_event_def split: tool_outcome.splits)

lemma with_key_Inr:
  "(with_key d k body st = Inr st') = (\<exists>v. d k = Some v \<and> body v st = Inr st')"
  by (simp add: with_key_def split: option.splits)

lemmas prim_Inr = run_stages_Cons_Inr run_stages_Nil_Inr timestamp_Inr clean_add_Inr
  set_unmappedBam_Inr ensure_dir_Inr call_lock_Inr toolkit_call_Inr with_key_Inr

subsection \<open>What a block that falls through has done\<close>

lemma stage_merge_Inr:
  assumes "stage_merge e st = Inr st'"
  shows "the_sample st' =
           (case unmappedBam (the_sample st) of
              Path p \<Rightarrow> the_sample st
            | PathList bams \<Rightarrow> (the_sample st)\<lparr>unmappedBam := Path (unmapped (the_sample st))\<rparr>)"
    and "registry st' = registry st"
    and "events st' = events st @
           (case unmappedBam (the_sample st) of
              Path p \<Rightarrow> []
            | PathList bams \<Rightarrow>
                [Timestamp ''Merging bam files from replicates'',
                 step_event e (cmd_mergeBams bams (the_sample st))
                   (Some (unmapped (the_sample st))) None False])"
    and "case unmappedBam (the_sample st) of
           Path p \<Rightarrow> True
         | PathList bams \<Rightarrow>
             step_raises e (cmd_mergeBams bams (the_sample st))
               (Some (unmapped (the_sample st))) False = None"
  using assms
  by (auto simp: stage_merge_def Let_def prim_Inr simp del: run_stages.simps
           split: raw_input.splits)

lemma stage_fastqc_Inr:
  assumes "stage_fastqc e st = Inr st'"
  shows "the_sample st' = the_sample st"
    and "registry st' = registry st"
    and "events st' = events st @
           [Timestamp ''Measuring sample quality with Fastqc'',
            step_event e (cmd_fastqc (the_sample st)) (Some (fastqc_target (the_sample st)))
              None False]"
    and "step_raises e (cmd_fastqc (the_sample st)) (Some (fastqc_target (the_sample st)))
           False = None"
  using assms
  by (auto simp: stage_fastqc_def Let_def prim_Inr simp del: run_stages.simps)

lemma stage_bam2fastq_Inr:
  assumes "stage_bam2fastq e st = Inr st'"
  shows "the_sample st' = the_sample st"
    and "registry st' = registry st @
           (if paired (the_sample st)
            then [(fastq1 (the_sample st), True), (fastq2 (the_sample st), True),
                  (fastqUnpaired (the_sample st), True)]
            else [(fastq (the_sample st), True)])"
    and "events st' = events st @
           [Timestamp ''Converting to Fastq format'',
            step_event e (cmd_bam2fastq (the_sample st))
              (Some (if paired (the_sample st) then fastq1 (the_sample st)
                     else fastq (the_sample st))) None False]"
    and "step_raises e (cmd_bam2fastq (the_sample st))
           (Some (if paired (the_sample st) then fastq1 (the_sample st)
                  else fastq (the_sample st))) False = None"
  using assms
  by (auto simp: stage_bam2fastq_def Let_def prim_Inr simp del: run_stages.simps
           split: if_splits)

lemma stage_trim_Inr:
  assumes "stage_trim a prj e st = Inr st'"
  shows "the_sample st' = the_sample st"
    and "registry st' = registry st @
           (if trimmer a = ''trimmomatic'' then
              (if paired (the_sample st)
               then [(trimmed1 (the_sample st), True), (trimmed1Unpaired (the_sample st), True),
                     (trimmed2 (the_sample st), True), (trimmed2Unpaired (the_sample st), True)]
               else [(trimmed (the_sample st), True)])
            else if trimmer a = ''skewer'' then
              (if paired (the_sample st)
               then [(trimmed1 (the_sample st), True), (trimmed2 (the_sample st), True)]
               else [(trimmed (the_sample st), True)])
            else [])"
    and "events st' = events st @
           Timestamp ''Trimming adapters from sample'' #
           (if trimmer a = ''trimmomatic'' then
              [step_event e (cmd_trimmomatic a prj (the_sample st))
                 (Some (if paired (the_sample st) then trimmed1 (the_sample st)
                        else trimmed (the_sample st))) None False]
            else if trimmer a = ''skewer'' then
              [step_event e (cmd_skewer a prj (the_sample st))
                 (Some (if paired (the_sample st) then trimmed1 (the_sample st)
                        else trimmed (the_sample st))) None False]
            else [])"
  using assms
  by (auto simp: stage_trim_def Let_def prim_Inr simp del: run_stages.simps split: if_splits)

lemma stage_map_Inr:
  assumes "stage_map a prj e st = Inr st'"
  obtains genomeIndex where
        "genomes (annotations (config prj)) (genome (the_sample st)) = Some genomeIndex"
    and "the_sample st' = the_sample st"
    and "registry st' = registry st @ [(mapped (the_sample st), True)]"
    and "events st' = events st @
           [Timestamp ''Mapping reads with Bowtie2'',
            step_event e (cmd_bowtie2Map a genomeIndex (the_sample st))
              (Some (mapped (the_sample st))) None False]"
    and "step_raises e (cmd_bowtie2Map a genomeIndex (the_sample st))
           (Some (mapped (the_sample st))) False = None"
  using assms
  by (auto simp: stage_map_def Let_def prim_Inr simp del: run_stages.simps)

lemma stage_filter_Inr:
  assumes "stage_filter a e st = Inr st'"
  shows "the_sample st' = the_sample st"
    and "registry st' = registry st"
    and "events st' = events st @
           [Timestamp ''Filtering reads for quality'',
            step_event e (cmd_filterReads a (the_sample st)) (Some (filtered (the_sample st)))
              None False]"
    and "step_raises e (cmd_filterReads a (the_sample st)) (Some (filtered (the_sample st)))
           False = None"
  using assms
  by (auto simp: stage_filter_def Let_def prim_Inr simp del: run_stages.simps)

lemma stage_shift_Inr:
  assumes "stage_shift e st = Inr st'"
  shows "the_sample st' = the_sample st"
    and "registry st' = registry st"
    and "events st' = events st @
           (if tagmented (the_sample st)
            then [Timestamp ''Shifting reads of tagmented sample'',
                  step_event e (cmd_shiftReads (the_sample st))
                    (Some (filteredshifted (the_sample st))) None False]
            else [])"
  using assms
  by (auto simp: stage_shift_def Let_def prim_Inr simp del: run_stages.simps split: if_splits)

lemma stage_index_Inr:
  assumes "stage_index e st = Inr st'"
  shows "the_sample st' = the_sample st"
    and "registry st' = registry st"
    and "events st' = events st @
           [Timestamp ''Indexing bamfiles with samtools'',
            step_event e (indexBam (mapped (the_sample st)))
              (Some (mapped (the_sample st) @ ''.bai'')) None False,
            step_event e (indexBam (filtered (the_sample st)))
              (Some (filtered (the_sample st) @ ''.bai'')) None False]
           @ (if tagmented (the_sample st)
              then [step_event e (indexBam (filteredshifted (the_sample st)))
                      (Some (filteredshifted (the_sample st) @ ''.bai'')) None False]
              else [])"
  using assms
  by (auto simp: stage_index_def Let_def prim_Inr simp del: run_stages.simps split: if_splits)

lemma stage_tracks_Inr:
  assumes "stage_tracks prj e st = Inr st'"
  obtains genomeSizes where
        "chrsizes (annotations (config prj)) (genome (the_sample st)) = Some genomeSizes"
    and "the_sample st' = the_sample st"
    and "registry st' = registry st"
    and "events st' = events st @
           [Timestamp ''Making bigWig tracks from bam file'',
            step_event e (cmd_bamToBigWig genomeSizes (the_sample st))
              (Some (bigwig (the_sample st))) None False,
            step_event e (cmd_addTrackToHub prj (the_sample st)) None
              (Some (name (the_sample st) @ ''addToTrackHub'')) False,
            Toolkit (call_linkToTrackHub prj (the_sample st))]"
    and "step_raises e (cmd_addTrackToHub prj (the_sample st)) None False = None"
    and "outcome e (call_linkToTrackHub prj (the_sample st)) = Succeeds"
  using assms
  by (auto simp: stage_tracks_def Let_def prim_Inr simp del: run_stages.simps)

lemma stage_insertsizes_Inr:
  assumes "stage_insertsizes e st = Inr st'"
  shows "the_sample st' = the_sample st"
    and "registry st' = registry st"
    and "events st' = events st @
           [Timestamp ''Plotting insert size distribution'',
            Toolkit (call_plotInsertSizesFit (the_sample st))]"
    and "outcome e (call_plotInsertSizesFit (the_sample st)) = Succeeds"
  using assms
  by (auto simp: stage_insertsizes_def Let_def prim_Inr simp del: run_stages.simps)

lemma stage_coverage_Inr:
  assumes "stage_coverage prj e st = Inr st'"
  obtains genomeWindows where
        "genomewindows (annotations (config prj)) (genome (the_sample st)) = Some genomeWindows"
    and "the_sample st' = the_sample st"
    and "registry st' = registry st"
    and "events st' = events st @
           [Timestamp ''Calculating genome-wide coverage'',
            step_event e (cmd_genomeWideCoverage genomeWindows (the_sample st))
              (Some (coverage (the_sample st))) None False]"
  using assms
  by (auto simp: stage_coverage_def Let_def prim_Inr simp del: run_stages.simps)

lemma stage_nsc_rsc_Inr:
  assumes "stage_nsc_rsc a e st = Inr st'"
  shows "the_sample st' = the_sample st"
    and "registry st' = registry st"
    and "events st' = events st @
           [Timestamp ''Assessing signal/noise in sample'',
            step_event e (cmd_peakTools a (the_sample st)) (Some (qcPlot (the_sample st)))
              None True]"
  using assms
  by (auto simp: stage_nsc_rsc_def Let_def prim_Inr simp del: run_stages.simps)

lemma stage_peaks_Inr:
  assumes "stage_peaks e st = Inr st'"
  shows "the_sample st' = the_sample st"
    and "registry st' = registry st"
    and "events st' = events st @
           Timestamp ''Calling peaks with MACS2'' #
           (if path_exists e (peaks_dir (dirs (the_sample st))) then []
            else [Makedirs (peaks_dir (dirs (the_sample st)))])
           @ [step_event e (cmd_macs2CallPeaksATACSeq (the_sample st))
                (Some (peaks (the_sample st))) None False]"
  using assms
  by (auto simp: stage_peaks_def Let_def prim_Inr simp del: run_stages.simps)

lemma stage_frip_Inr:
  assumes "stage_frip e st = Inr st'"
  shows "the_sample st' = the_sample st"
    and "registry st' = registry st"
    and "events st' = events st @
           [Timestamp ''Calculating fraction of reads in peaks (FRiP)'',
            step_event e (cmd_calculateFRiP (the_sample st)) (Some (frip (the_sample st)))
              None False]"
  using assms
  by (auto simp: stage_frip_def Let_def prim_Inr simp del: run_stages.simps)

lemma process_stages:
  assumes "process a prj e s = Inr st"
  obtains st1 st2 st3 st4 st5 st6 st7 st8 st9 st10 st11 st12 st13 where
        "stage_merge e (initial_state s) = Inr st1"
        "stage_fastqc e st1 = Inr st2"
        "stage_bam2fastq e st2 = Inr st3"
        "stage_trim a prj e st3 = Inr st4"
        "stage_map a prj e st4 = Inr st5"
        "stage_filter a e st5 = Inr st6"
        "stage_shift e st6 = Inr st7"
        "stage_index e st7 = Inr st8"
        "stage_tracks prj e st8 = Inr st9"
        "stage_insertsizes e st9 = Inr st10"
        "stage_coverage prj e st10 = Inr st11"
        "stage_nsc_rsc a e st11 = Inr st12"
        "stage_peaks e st12 = Inr st13"
        "stage_frip e st13 = Inr st"
  using assms unfolding process_def run_stages_Cons_Inr run_stages_Nil_Inr by blast

subsection \<open>Commands that do not read \<open>sample.unmappedBam\<close>\<close>

lemma cmd_unmappedBam_update:
  "cmd_trimmomatic a prj (s\<lparr>unmappedBam := u\<rparr>) = cmd_trimmomatic a prj s"
  "cmd_skewer a prj (s\<lparr>unmappedBam := u\<rparr>) = cmd_skewer a prj s"
  "cmd_bowtie2Map a gi (s\<lparr>unmappedBam := u\<rparr>) = cmd_bowtie2Map a gi s"
  "cmd_filterReads a (s\<lparr>unmappedBam := u\<rparr>) = cmd_filterReads a s"
  "cmd_shiftReads (s\<lparr>unmappedBam := u\<rparr>) = cmd_shiftReads s"
  "cmd_bamToBigWig gs (s\<lparr>unmappedBam := u\<rparr>) = cmd_bamToBigWig gs s"
  "cmd_addTrackToHub prj (s\<lparr>unmappedBam := u\<rparr>) = cmd_addTrackToHub prj s"
  "call_linkToTrackHub prj (s\<lparr>unmappedBam := u\<rparr>) = call_linkToTrackHub prj s"
  "call_plotInsertSizesFit (s\<lparr>unmappedBam := u\<rparr>) = call_plotInsertSizesFit s"
  "cmd_genomeWideCoverage gw (s\<lparr>unmappedBam := u\<rparr>) = cmd_genomeWideCoverage gw s"
  "cmd_peakTools a (s\<lparr>unmappedBam := u\<rparr>) = cmd_peakTools a s"
  "cmd_macs2CallPeaksATACSeq (s\<lparr>unmappedBam := u\<rparr>) = cmd_macs2CallPeaksATACSeq s"
  "cmd_calculateFRiP (s\<lparr>unmappedBam := u\<rparr>) = cmd_calculateFRiP s"
  "fastqc_target (s\<lparr>unmappedBam := u\<rparr>) = fastqc_target s"
  by (simp_all add: cmd_trimmomatic_def cmd_skewer_def cmd_bowtie2Map_def cmd_filterReads_def
        cmd_shiftReads_def cmd_bamToBigWig_def cmd_addTrackToHub_def call_linkToTrackHub_def
        call_plotInsertSizesFit_def cmd_genomeWideCoverage_def cmd_peakTools_def
        cmd_macs2CallPeaksATACSeq_def cmd_calculateFRiP_def fastqc_target_def)

subsection \<open>A run that finishes\<close>

text \<open>
  The state at the end of a run of \<open>process\<close> that raised nothing: the sample, the
  disposal registry and every event, in order. \<open>s'\<close> is the sample after the merge
  block.
\<close>

lemma process_finished:
  assumes "process a prj e s = Inr st"
  obtains gi gs gw s' where
        "genomes (annotations (config prj)) (genome s) = Some gi"
    and "chrsizes (annotations (config prj)) (genome s) = Some gs"
    and "genomewindows (annotations (config prj)) (genome s) = Some gw"
    and "s' = s\<lparr>unmappedBam :=
                  (case unmappedBam s of Path p \<Rightarrow> Path p | PathList bams \<Rightarrow> Path (unmapped s))\<rparr>"
    and "the_sample st = s'"
    and "registry st =
           (if paired s then [(fastq1 s, True), (fastq2 s, True), (fastqUnpaired s, True)]
            else [(fastq s, True)])
           @ (if trimmer a = ''trimmomatic'' then
                (if paired s
                 then [(trimmed1 s, True), (trimmed1Unpaired s, True), (trimmed2 s, True),
                       (trimmed2Unpaired s, True)]
                 else [(trimmed s, True)])
              else if trimmer a = ''skewer'' then
                (if paired s then [(trimmed1 s, True), (trimmed2 s, True)]
                 else [(trimmed s, True)])
              else [])
           @ [(mapped s, True)]"
    and "events st =
           (case unmappedBam s of
              Path p \<Rightarrow> []
            | PathList bams \<Rightarrow>
                [Timestamp ''Merging bam files from replicates'',
                 step_event e (cmd_mergeBams bams s) (Some (unmapped s)) None False])
           @ [Timestamp ''Measuring sample quality with Fastqc'',
              step_event e (cmd_fastqc s') (Some (fastqc_target s)) None False,
              Timestamp ''Converting to Fastq format'',
              step_event e (cmd_bam2fastq s') (Some (if paired s then fastq1 s else fastq s))
                None False,
              Timestamp ''Trimming adapters from sample'']
           @ (if trimmer a = ''trimmomatic'' then
                [step_event e (cmd_trimmomatic a prj s)
                   (Some (if paired s then trimmed1 s else trimmed s)) None False]
              else if trimmer a = ''skewer'' then
                [step_event e (cmd_skewer a prj s)
                   (Some (if paired s then trimmed1 s else trimmed s)) None False]
              else [])
           @ [Timestamp ''Mapping reads with Bowtie2'',
              step_event e (cmd_bowtie2Map a gi s) (Some (mapped s)) None False,
              Timestamp ''Filtering reads for quality'',
              step_event e (cmd_filterReads a s) (Some (filtered s)) None False]
           @ (if tagmented s
              then [Timestamp ''Shifting reads of tagmented sample'',
                    step_event e (cmd_shiftReads s) (Some (filteredshifted s)) None False]
              else [])
           @ [Timestamp ''Indexing bamfiles with samtools'',
              step_event e (indexBam (mapped s)) (Some (mapped s @ ''.bai'')) None False,
              step_event e (indexBam (filtered s)) (Some (filtered s @ ''.bai'')) None False]
           @ (if tagmented s
              then [step_event e (indexBam (filteredshifted s))
                      (Some (filteredshifted s @ ''.bai'')) None False]
              else [])
           @ [Timestamp ''Making bigWig tracks from bam file'',
              step_event e (cmd_bamToBigWig gs s) (Some (bigwig s)) None False,
              step_event e (cmd_addTrackToHub prj s) None (Some (name s @ ''addToTrackHub''))
                False,
              Toolkit (call_linkToTrackHub prj s),
              Timestamp ''Plotting insert size distribution'',
              Toolkit (call_plotInsertSizesFit s),
              Timestamp ''Calculating genome-wide coverage'',
              step_event e (cmd_genomeWideCoverage gw s) (Some (coverage s)) None False,
              Timestamp ''Assessing signal/noise in sample'',
              step_event e (cmd_peakTools a s) (Some (qcPlot s)) None True,
              Timestamp ''Calling peaks with MACS2'']
           @ (if path_exists e (peaks_dir (dirs s)) then [] else [Makedirs (peaks_dir (dirs s))])
           @ [step_event e (cmd_macs2CallPeaksATACSeq s) (Some (peaks s)) None False,
              Timestamp ''Calculating fraction of reads in peaks (FRiP)'',
              step_event e (cmd_calculateFRiP s) (Some (frip s)) None False]"
    and "step_raises e (cmd_addTrackToHub prj s) None False = None"
proof -
  from assms obtain st1 st2 st3 st4 st5 st6 st7 st8 st9 st10 st11 st12 st13 where
        c1: "stage_merge e (initial_state s) = Inr st1"
    and c2: "stage_fastqc e st1 = Inr st2"
    and c3: "stage_bam2fastq e st2 = Inr st3"
    and c4: "stage_trim a prj e st3 = Inr st4"
    and c5: "stage_map a prj e st4 = Inr st5"
    and c6: "stage_filter a e st5 = Inr st6"
    and c7: "stage_shift e st6 = Inr st7"
    and c8: "stage_index e st7 = Inr st8"
    and c9: "stage_tracks prj e st8 = Inr st9"
    and c10: "stage_insertsizes e st9 = Inr st10"
    and c11: "stage_coverage prj e st10 = Inr st11"
    and c12: "stage_nsc_rsc a e st11 = Inr st12"
    and c13: "stage_peaks e st12 = Inr st13"
    and c14: "stage_frip e st13 = Inr st"
    by (rule process_stages)
  define s' where
    "s' = s\<lparr>unmappedBam :=
              (case unmappedBam s of Path p \<Rightarrow> Path p | PathList bams \<Rightarrow> Path (unmapped s))\<rparr>"
  have init: "the_sample (initial_state s) = s" "registry (initial_state s) = []"
    "events (initial_state s) = []"
    by (simp_all add: initial_state_def)
  note m = stage_merge_Inr [OF c1, unfolded init]
  have s1: "the_sample st1 = s'"
    unfolding s'_def m(1) by (simp split: raw_input.splits)
  have flds: "paired s' = paired s" "tagmented s' = tagmented s" "genome s' = genome s"
    "fastq s' = fastq s" "fastq1 s' = fastq1 s" "fastq2 s' = fastq2 s"
    "fastqUnpaired s' = fastqUnpaired s" "trimmed s' = trimmed s" "trimmed1 s' = trimmed1 s"
    "trimmed2 s' = trimmed2 s" "trimmed1Unpaired s' = trimmed1Unpaired s"
    "trimmed2Unpaired s' = trimmed2Unpaired s" "mapped s' = mapped s"
    "filtered s' = filtered s" "filteredshifted s' = filteredshifted s" "bigwig s' = bigwig s"
    "name s' = name s" "dirs s' = dirs s" "coverage s' = coverage s" "qcPlot s' = qcPlot s"
    "peaks s' = peaks s" "frip s' = frip s"
    by (simp_all add: s'_def)
  have cmds:
    "cmd_trimmomatic a prj s' = cmd_trimmomatic a prj s"
    "cmd_skewer a prj s' = cmd_skewer a prj s"
    "\<And>g. cmd_bowtie2Map a g s' = cmd_bowtie2Map a g s"
    "cmd_filterReads a s' = cmd_filterReads a s"
    "cmd_shiftReads s' = cmd_shiftReads s"
    "\<And>g. cmd_bamToBigWig g s' = cmd_bamToBigWig g s"
    "cmd_addTrackToHub prj s' = cmd_addTrackToHub prj s"
    "call_linkToTrackHub prj s' = call_linkToTrackHub prj s"
    "call_plotInsertSizesFit s' = call_plotInsertSizesFit s"
    "\<And>g. cmd_genomeWideCoverage g s' = cmd_genomeWideCoverage g s"
    "cmd_peakTools a s' = cmd_peakTools a s"
    "cmd_macs2CallPeaksATACSeq s' = cmd_macs2CallPeaksATACSeq s"
    "cmd_calculateFRiP s' = cmd_calculateFRiP s"
    "fastqc_target s' = fastqc_target s"
    by (simp_all add: s'_def cmd_unmappedBam_update)
  note f = stage_fastqc_Inr [OF c2, unfolded s1]
  have s2: "the_sample st2 = s'" using f(1) .
  note b = stage_bam2fastq_Inr [OF c3, unfolded s2]
  have s3: "the_sample st3 = s'" using b(1) .
  note t = stage_trim_Inr [OF c4, unfolded s3]
  have s4: "the_sample st4 = s'" using t(1) .
  from c5 obtain gi where
        gi: "genomes (annotations (config prj)) (genome s') = Some gi"
    and s5: "the_sample st5 = s'"
    and r5: "registry st5 = registry st4 @ [(mapped s', True)]"
    and e5: "events st5 = events st4 @
               [Timestamp ''Mapping reads with Bowtie2'',
                step_event e (cmd_bowtie2Map a gi s') (Some (mapped s')) None False]"
    by (rule stage_map_Inr) (simp add: s4)
  note fl = stage_filter_Inr [OF c6, unfolded s5]
  have s6: "the_sample st6 = s'" using fl(1) .
  note sh = stage_shift_Inr [OF c7, unfolded s6]
  have s7: "the_sample st7 = s'" using sh(1) .
  note ix = stage_index_Inr [OF c8, unfolded s7]
  have s8: "the_sample st8 = s'" using ix(1) .
  from c9 obtain gs where
        gs: "chrsizes (annotations (config prj)) (genome s') = Some gs"
    and s9: "the_sample st9 = s'"
    and r9: "registry st9 = registry st8"
    and e9: "events st9 = events st8 @
               [Timestamp ''Making bigWig tracks from bam file'',
                step_event e (cmd_bamToBigWig gs s') (Some (bigwig s')) None False,
                step_event e (cmd_addTrackToHub prj s') None
                  (Some (name s' @ ''addToTrackHub'')) False,
                Toolkit (call_linkToTrackHub prj s')]"
    and hub: "step_raises e (cmd_addTrackToHub prj s') None False = None"
    by (rule stage_tracks_Inr) (simp add: s8)
  note ins = stage_insertsizes_Inr [OF c10, unfolded s9]
  have s10: "the_sample st10 = s'" using ins(1) .
  from c11 obtain gw where
        gw: "genomewindows (annotations (config prj)) (genome s') = Some gw"
    and s11: "the_sample st11 = s'"
    and r11: "registry st11 = registry st10"
    and e11: "events st11 = events st10 @
               [Timestamp ''Calculating genome-wide coverage'',
                step_event e (cmd_genomeWideCoverage gw s') (Some (coverage s')) None False]"
    by (rule stage_coverage_Inr) (simp add: s10)
  note nsc = stage_nsc_rsc_Inr [OF c12, unfolded s11]
  have s12: "the_sample st12 = s'" using nsc(1) .
  note pk = stage_peaks_Inr [OF c13, unfolded s12]
  have s13: "the_sample st13 = s'" using pk(1) .
  note fr = stage_frip_Inr [OF c14, unfolded s13]
  have reg: "registry st =
           (if paired s then [(fastq1 s, True), (fastq2 s, True), (fastqUnpaired s, True)]
            else [(fastq s, True)])
           @ (if trimmer a = ''trimmomatic'' then
                (if paired s
                 then [(trimmed1 s, True), (trimmed1Unpaired s, True), (trimmed2 s, True),
                       (trimmed2Unpaired s, True)]
                 else [(trimmed s, True)])
              else if trimmer a = ''skewer'' then
                (if paired s then [(trimmed1 s, True), (trimmed2 s, True)]
                 else [(trimmed s, True)])
              else [])
           @ [(mapped s, True)]"
    unfolding fr(2) pk(2) nsc(2) r11 ins(2) r9 ix(2) sh(2) fl(2) r5 t(2) b(2) f(2) m(2) flds
    by simp
  have evs: "events st1 =
           (case unmappedBam s of
              Path p \<Rightarrow> []
            | PathList bams \<Rightarrow>
                [Timestamp ''Merging bam files from replicates'',
                 step_event e (cmd_mergeBams bams s) (Some (unmapped s)) None False])"
    using m(3) by simp
  show thesis
  proof (rule that [of gi gs gw s'])
    show "events st =
           (case unmappedBam s of
              Path p \<Rightarrow> []
            | PathList bams \<Rightarrow>
                [Timestamp ''Merging bam files from replicates'',
                 step_event e (cmd_mergeBams bams s) (Some (unmapped s)) None False])
           @ [Timestamp ''Measuring sample quality with Fastqc'',
              step_event e (cmd_fastqc s') (Some (fastqc_target s)) None False,
              Timestamp ''Converting to Fastq format'',
              step_event e (cmd_bam2fastq s') (Some (if paired s then fastq1 s else fastq s))
                None False,
              Timestamp ''Trimming adapters from sample'']
           @ (if trimmer a = ''trimmomatic'' then
                [step_event e (cmd_trimmomatic a prj s)
                   (Some (if paired s then trimmed1 s else trimmed s)) None False]
              else if trimmer a = ''skewer'' then
                [step_event e (cmd_skewer a prj s)
                   (Some (if paired s then trimmed1 s else trimmed s)) None False]
              else [])
           @ [Timestamp ''Mapping reads with Bowtie2'',
              step_event e (cmd_bowtie2Map a gi s) (Some (mapped s)) None False,
              Timestamp ''Filtering reads for quality'',
              step_event e (cmd_filterReads a s) (Some (filtered s)) None False]
           @ (if tagmented s
              then [Timestamp ''Shifting reads of tagmented sample'',
                    step_event e (cmd_shiftReads s) (Some (filteredshifted s)) None False]
              else [])
           @ [Timestamp ''Indexing bamfiles with samtools'',
              step_event e (indexBam (mapped s)) (Some (mapped s @ ''.bai'')) None False,
              step_event e (indexBam (filtered s)) (Some (filtered s @ ''.bai'')) None False]
           @ (if tagmented s
              then [step_event e (indexBam (filteredshifted s))
                      (Some (filteredshifted s @ ''.bai'')) None False]
              else [])
           @ [Timestamp ''Making bigWig tracks from bam file'',
              step_event e (cmd_bamToBigWig gs s) (Some (bigwig s)) None False,
              step_event e (cmd_addTrackToHub prj s) None (Some (name s @ ''addToTrackHub''))
                False,
              Toolkit (call_linkToTrackHub prj s),
              Timestamp ''Plotting insert size distribution'',
              Toolkit (call_plotInsertSizesFit s),
              Timestamp ''Calculating genome-wide coverage'',
              step_event e (cmd_genomeWideCoverage gw s) (Some (coverage s)) None False,
              Timestamp ''Assessing signal/noise in sample'',
              step_event e (cmd_peakTools a s) (Some (qcPlot s)) None True,
              Timestamp ''Calling peaks with MACS2'']
           @ (if path_exists e (peaks_dir (dirs s)) then [] else [Makedirs (peaks_dir (dirs s))])
           @ [step_event e (cmd_macs2CallPeaksATACSeq s) (Some (peaks s)) None False,
              Timestamp ''Calculating fraction of reads in peaks (FRiP)'',
              step_event e (cmd_calculateFRiP s) (Some (frip s)) None False]"
      unfolding fr(3) pk(3) nsc(3) e11 ins(3) e9 ix(3) sh(3) fl(3) e5 t(3) b(3) f(3) evs
        flds cmds
      by simp
  next
    show "s' = s\<lparr>unmappedBam :=
                  (case unmappedBam s of Path p \<Rightarrow> Path p | PathList bams \<Rightarrow> Path (unmapped s))\<rparr>"
      by (rule s'_def)
  qed (use gi gs gw hub reg fr(1) in \<open>simp_all add: flds cmds\<close>)
qed


subsection \<open>Reading the events of a run\<close>

lemma issued_append: "issued (xs @ ys) = issued xs @ issued ys"
  by (induction xs rule: issued.induct) simp_all

lemma invoked_append: "invoked (xs @ ys) = invoked xs @ invoked ys"
  by (induction xs rule: invoked.induct) simp_all

lemma declared_targets_append:
  "declared_targets (xs @ ys) = declared_targets xs @ declared_targets ys"
  by (induction xs rule: declared_targets.induct) simp_all

lemma tool_cmd:
  "tool (cmd_mergeBams bams s) = ''mergeBams''"
  "tool (cmd_fastqc s) = ''fastqc''"
  "tool (cmd_bam2fastq s) = ''bam2fastq''"
  "tool (cmd_trimmomatic a prj s) = ''trimmomatic''"
  "tool (cmd_skewer a prj s) = ''skewer''"
  "tool (cmd_bowtie2Map a gi s) = ''bowtie2Map''"
  "tool (cmd_filterReads a s) = ''filterReads''"
  "tool (cmd_shiftReads s) = ''shiftReads''"
  "tool (cmd_bamToBigWig gs s) = ''bamToBigWig''"
  "tool (cmd_addTrackToHub prj s) = ''addTrackToHub''"
  "tool (call_linkToTrackHub prj s) = ''linkToTrackHub''"
  "tool (call_plotInsertSizesFit s) = ''plotInsertSizesFit''"
  "tool (cmd_genomeWideCoverage gw s) = ''genomeWideCoverage''"
  "tool (cmd_peakTools a s) = ''peakTools''"
  "tool (cmd_macs2CallPeaksATACSeq s) = ''macs2CallPeaksATACSeq''"
  "tool (cmd_calculateFRiP s) = ''calculateFRiP''"
  by (simp_all add: cmd_mergeBams_def cmd_fastqc_def cmd_bam2fastq_def cmd_trimmomatic_def
        cmd_skewer_def cmd_bowtie2Map_def cmd_filterReads_def cmd_shiftReads_def
        cmd_bamToBigWig_def cmd_addTrackToHub_def call_linkToTrackHub_def
        call_plotInsertSizesFit_def cmd_genomeWideCoverage_def cmd_peakTools_def
        cmd_macs2CallPeaksATACSeq_def cmd_calculateFRiP_def)

lemma issued_step_event [simp]: "issued (step_event e c t l n # evs) = c # issued evs"
  by (simp add: step_event_def)

lemma not_isl_finished: "\<not> isl r \<Longrightarrow> \<exists>st. r = Inr st \<and> final_state r = st"
  by (cases r) (simp_all add: final_state_def)

lemma take_drop_split: "take n (drop k xs) = ys \<Longrightarrow> xs = take k xs @ ys @ drop (k + n) xs"
proof -
  assume "take n (drop k xs) = ys"
  then have "drop k xs = ys @ drop n (drop k xs)"
    by (metis append_take_drop_id)
  then have "take k xs @ ys @ drop (k + n) xs = take k xs @ drop k xs"
    by (simp add: add.commute)
  then show ?thesis by simp
qed

lemma cmd_trimmer_update:
  "cmd_trimmomatic (a\<lparr>trimmer := t\<rparr>) prj s = cmd_trimmomatic a prj s"
  "cmd_skewer (a\<lparr>trimmer := t\<rparr>) prj s = cmd_skewer a prj s"
  "cmd_bowtie2Map (a\<lparr>trimmer := t\<rparr>) gi s = cmd_bowtie2Map a gi s"
  "cmd_filterReads (a\<lparr>trimmer := t\<rparr>) s = cmd_filterReads a s"
  "cmd_peakTools (a\<lparr>trimmer := t\<rparr>) s = cmd_peakTools a s"
  by (simp_all add: cmd_trimmomatic_def cmd_skewer_def cmd_bowtie2Map_def cmd_filterReads_def
        cmd_peakTools_def)

lemma declared_targets_step_event [simp]:
  "declared_targets (step_event e c (Some t) l n # evs) = t # declared_targets evs"
  "declared_targets (step_event e c None l n # evs) = declared_targets evs"
  by (simp_all add: step_event_def)

lemma invoked_step_event [simp]:
  "invoked (step_event e c t l n # evs) =
     (if is_complete e t then invoked evs else c # invoked evs)"
  by (simp add: step_event_def step_result_of_def split: tool_outcome.splits)

subsection \<open>Runs that may raise\<close>

text \<open>
  The state a statement leaves behind, whether it falls through or raises, and whether
  it raises.
\<close>

lemma final_state_Inr [simp]: "final_state (Inr st) = st"
  and final_state_Inl [simp]: "final_state (Inl (x, st)) = st"
  by (simp_all add: final_state_def)

lemma run_stages_final_Cons:
  "final_state (run_stages (f # fs) st) =
     (if isl (f st) then final_state (f st)
      else final_state (run_stages fs (final_state (f st))))"
  by (cases "f st") auto

lemma run_stages_isl_Cons:
  "isl (run_stages (f # fs) st) = (isl (f st) \<or> isl (run_stages fs (final_state (f st))))"
  by (cases "f st") auto

lemma final_state_prims:
  "final_state (timestamp m st) = log_event (Timestamp m) st"
  "final_state (clean_add p cond st) = st\<lparr>registry := registry st @ [(p, cond)]\<rparr>"
  "final_state (set_unmappedBam st) =
     st\<lparr>the_sample := (the_sample st)\<lparr>unmappedBam := Path (unmapped (the_sample st))\<rparr>\<rparr>"
  "final_state (ensure_dir e d st) =
     (if path_exists e d then st else log_event (Makedirs d) st)"
  "final_state (call_lock e c t l n st) = log_event (step_event e c t l n) st"
  "final_state (toolkit_call e c st) = log_event (Toolkit c) st"
  "final_state (with_key dict k body st) =
     (case dict k of None \<Rightarrow> st | Some v \<Rightarrow> final_state (body v st))"
  by (simp_all add: timestamp_def clean_add_def set_unmappedBam_def ensure_dir_def
        call_lock_def toolkit_call_def with_key_def Let_def
        split: option.splits tool_outcome.splits)

lemma isl_prims:
  "isl (timestamp m st) = False"
  "isl (clean_add p cond st) = False"
  "isl (set_unmappedBam st) = False"
  "isl (ensure_dir e d st) = (\<not> path_exists e d \<and> makedirs_fails e d)"
  "isl (call_lock e c t l n st) = (step_raises e c t n \<noteq> None)"
  "isl (toolkit_call e c st) = (outcome e c \<noteq> Succeeds)"
  "isl (with_key dict k body st) = (case dict k of None \<Rightarrow> True | Some v \<Rightarrow> isl (body v st))"
  by (simp_all add: timestamp_def clean_add_def set_unmappedBam_def ensure_dir_def
        call_lock_def toolkit_call_def with_key_def Let_def
        split: option.splits tool_outcome.splits)

lemma run_stages_invariant:
  assumes "I st" and "\<And>f st'. f \<in> set fs \<Longrightarrow> I st' \<Longrightarrow> I (final_state (f st'))"
  shows "I (final_state (run_stages fs st))"
  using assms
proof (induction fs arbitrary: st)
  case Nil
  then show ?case by simp
next
  case (Cons f fs)
  have "I (final_state (f st))" using Cons.prems by simp
  moreover have "I (final_state (run_stages fs (final_state (f st))))"
    using Cons.IH [of "final_state (f st)"] Cons.prems \<open>I (final_state (f st))\<close> by simp
  ultimately show ?case by (simp add: run_stages_final_Cons del: run_stages.simps(2))
qed

text \<open>Only the merge block touches the sample.\<close>

lemma keeps_sample:
  "the_sample (final_state (stage_fastqc e st)) = the_sample st"
  "the_sample (final_state (stage_bam2fastq e st)) = the_sample st"
  "the_sample (final_state (stage_trim a prj e st)) = the_sample st"
  "the_sample (final_state (stage_map a prj e st)) = the_sample st"
  "the_sample (final_state (stage_filter a e st)) = the_sample st"
  "the_sample (final_state (stage_shift e st)) = the_sample st"
  "the_sample (final_state (stage_index e st)) = the_sample st"
  "the_sample (final_state (stage_tracks prj e st)) = the_sample st"
  "the_sample (final_state (stage_insertsizes e st)) = the_sample st"
  "the_sample (final_state (stage_coverage prj e st)) = the_sample st"
  "the_sample (final_state (stage_nsc_rsc a e st)) = the_sample st"
  "the_sample (final_state (stage_peaks e st)) = the_sample st"
  "the_sample (final_state (stage_frip e st)) = the_sample st"
  by (simp_all add: stage_fastqc_def stage_bam2fastq_def stage_trim_def stage_map_def
        stage_filter_def stage_shift_def stage_index_def stage_tracks_def
        stage_insertsizes_def stage_coverage_def stage_nsc_rsc_def stage_peaks_def
        stage_frip_def Let_def run_stages_final_Cons final_state_prims isl_prims log_event_def
        split: option.splits
        del: run_stages.simps(2))

lemma stage_merge_sample:
  "the_sample (final_state (stage_merge e st)) = the_sample st
   \<or> (\<exists>bams. unmappedBam (the_sample st) = PathList bams)
     \<and> the_sample (final_state (stage_merge e st)) =
         (the_sample st)\<lparr>unmappedBam := Path (unmapped (the_sample st))\<rparr>"
  by (simp add: stage_merge_def Let_def run_stages_final_Cons final_state_prims isl_prims
        log_event_def split: raw_input.splits del: run_stages.simps(2))

lemma process_sample:
  "the_sample (final_state (process a prj e s)) =
     the_sample (final_state (stage_merge e (initial_state s)))"
proof -
  define x where "x = the_sample (final_state (stage_merge e (initial_state s)))"
  have "the_sample (final_state (run_stages
          [stage_fastqc e, stage_bam2fastq e, stage_trim a prj e, stage_map a prj e,
           stage_filter a e, stage_shift e, stage_index e, stage_tracks prj e,
           stage_insertsizes e, stage_coverage prj e, stage_nsc_rsc a e, stage_peaks e,
           stage_frip e]
          (final_state (stage_merge e (initial_state s))))) = x"
    by (rule run_stages_invariant [where I = "\<lambda>st. the_sample st = x"])
       (auto simp: x_def keeps_sample)
  then show ?thesis
    unfolding process_def x_def by (simp add: run_stages_final_Cons del: run_stages.simps(2))
qed

text \<open>
  The blocks before the signal/noise assessment do not log its progress marker, and no
  block removes an issued call from the events.
\<close>

lemma marker_not_logged:
  assumes "Timestamp ''Assessing signal/noise in sample'' \<notin> set (events st)"
  shows "Timestamp ''Assessing signal/noise in sample''
           \<notin> set (events (final_state (stage_merge e st)))"
    and "Timestamp ''Assessing signal/noise in sample''
           \<notin> set (events (final_state (stage_fastqc e st)))"
    and "Timestamp ''Assessing signal/noise in sample''
           \<notin> set (events (final_state (stage_bam2fastq e st)))"
    and "Timestamp ''Assessing signal/noise in sample''
           \<notin> set (events (final_state (stage_trim a prj e st)))"
    and "Timestamp ''Assessing signal/noise in sample''
           \<notin> set (events (final_state (stage_map a prj e st)))"
    and "Timestamp ''Assessing signal/noise in sample''
           \<notin> set (events (final_state (stage_filter a e st)))"
    and "Timestamp ''Assessing signal/noise in sample''
           \<notin> set (events (final_state (stage_shift e st)))"
    and "Timestamp ''Assessing signal/noise in sample''
           \<notin> set (events (final_state (stage_index e st)))"
    and "Timestamp ''Assessing signal/noise in sample''
           \<notin> set (events (final_state (stage_tracks prj e st)))"
    and "Timestamp ''Assessing signal/noise in sample''
           \<notin> set (events (final_state (stage_insertsizes e st)))"
    and "Timestamp ''Assessing signal/noise in sample''
           \<notin> set (events (final_state (stage_coverage prj e st)))"
  using assms
  by (simp_all add: stage_merge_def stage_fastqc_def stage_bam2fastq_def stage_trim_def
        stage_map_def stage_filter_def stage_shift_def stage_index_def stage_tracks_def
        stage_insertsizes_def stage_coverage_def Let_def run_stages_final_Cons
        final_state_prims isl_prims log_event_def step_event_def
        split: option.splits raw_input.splits
        del: run_stages.simps(2))

lemma issued_kept:
  assumes "c \<in> set (issued (events st))"
  shows "c \<in> set (issued (events (final_state (stage_frip e st))))"
  using assms
  by (simp add: stage_frip_def Let_def run_stages_final_Cons final_state_prims isl_prims
        log_event_def issued_append del: run_stages.simps(2))

text \<open>
  The blocks other than the signal/noise assessment log no step with \<open>nofail=True\<close>, and
  the command of the assessment is the one built from the sample.
\<close>

lemma nofail_steps_kept:
  assumes "\<forall>c t l r. Step c t l True r \<in> set (events st) \<longrightarrow> P c"
  shows "\<forall>c t l r. Step c t l True r \<in> set (events (final_state (stage_merge e st))) \<longrightarrow> P c"
    and "\<forall>c t l r. Step c t l True r \<in> set (events (final_state (stage_fastqc e st))) \<longrightarrow> P c"
    and "\<forall>c t l r. Step c t l True r \<in> set (events (final_state (stage_bam2fastq e st))) \<longrightarrow> P c"
    and "\<forall>c t l r. Step c t l True r \<in> set (events (final_state (stage_trim a prj e st)))
           \<longrightarrow> P c"
    and "\<forall>c t l r. Step c t l True r \<in> set (events (final_state (stage_map a prj e st)))
           \<longrightarrow> P c"
    and "\<forall>c t l r. Step c t l True r \<in> set (events (final_state (stage_filter a e st))) \<longrightarrow> P c"
    and "\<forall>c t l r. Step c t l True r \<in> set (events (final_state (stage_shift e st))) \<longrightarrow> P c"
    and "\<forall>c t l r. Step c t l True r \<in> set (events (final_state (stage_index e st))) \<longrightarrow> P c"
    and "\<forall>c t l r. Step c t l True r \<in> set (events (final_state (stage_tracks prj e st)))
           \<longrightarrow> P c"
    and "\<forall>c t l r. Step c t l True r \<in> set (events (final_state (stage_insertsizes e st)))
           \<longrightarrow> P c"
    and "\<forall>c t l r. Step c t l True r \<in> set (events (final_state (stage_coverage prj e st)))
           \<longrightarrow> P c"
    and "\<forall>c t l r. Step c t l True r \<in> set (events (final_state (stage_peaks e st))) \<longrightarrow> P c"
    and "\<forall>c t l r. Step c t l True r \<in> set (events (final_state (stage_frip e st))) \<longrightarrow> P c"
  using assms
  by (simp_all add: stage_merge_def stage_fastqc_def stage_bam2fastq_def stage_trim_def
        stage_map_def stage_filter_def stage_shift_def stage_index_def stage_tracks_def
        stage_insertsizes_def stage_coverage_def stage_peaks_def stage_frip_def Let_def
        run_stages_final_Cons final_state_prims isl_prims log_event_def step_event_def
        split: option.splits raw_input.splits
        del: run_stages.simps(2))

lemma nofail_step_of_nsc_rsc:
  assumes "\<forall>c t l r. Step c t l True r \<in> set (events st) \<longrightarrow> P c"
      and "P (cmd_peakTools a (the_sample st))"
  shows "\<forall>c t l r. Step c t l True r \<in> set (events (final_state (stage_nsc_rsc a e st)))
           \<longrightarrow> P c"
  using assms
  by (auto simp add: stage_nsc_rsc_def Let_def run_stages_final_Cons final_state_prims
        isl_prims log_event_def step_event_def simp del: run_stages.simps(2))

lemma nofail_only_kept:
  assumes "nofail_only a s st"
  shows "nofail_only a s (final_state (stage_merge e st))"
    and "nofail_only a s (final_state (stage_fastqc e st))"
    and "nofail_only a s (final_state (stage_bam2fastq e st))"
    and "nofail_only a s (final_state (stage_trim a prj e st))"
    and "nofail_only a s (final_state (stage_map a prj e st))"
    and "nofail_only a s (final_state (stage_filter a e st))"
    and "nofail_only a s (final_state (stage_shift e st))"
    and "nofail_only a s (final_state (stage_index e st))"
    and "nofail_only a s (final_state (stage_tracks prj e st))"
    and "nofail_only a s (final_state (stage_insertsizes e st))"
    and "nofail_only a s (final_state (stage_coverage prj e st))"
    and "nofail_only a s (final_state (stage_nsc_rsc a e st))"
    and "nofail_only a s (final_state (stage_peaks e st))"
    and "nofail_only a s (final_state (stage_frip e st))"
proof -
  from assms obtain u where u: "the_sample st = s\<lparr>unmappedBam := u\<rparr>"
    unfolding nofail_only_def by blast
  from assms have ev:
    "\<forall>c t l r. Step c t l True r \<in> set (events st) \<longrightarrow> c = cmd_peakTools a s"
    unfolding nofail_only_def by blast
  have smp: "\<exists>u. the_sample st' = s\<lparr>unmappedBam := u\<rparr>" if "the_sample st' = the_sample st"
    for st' :: run_state
    using that u by (intro exI [of _ u]) simp
  have pk: "cmd_peakTools a (the_sample st) = cmd_peakTools a s"
    by (simp add: u cmd_unmappedBam_update)
  note k = nofail_steps_kept [OF ev]
  have "\<exists>u. the_sample (final_state (stage_merge e st)) = s\<lparr>unmappedBam := u\<rparr>"
    using stage_merge_sample [of e st] u by auto
  then show "nofail_only a s (final_state (stage_merge e st))"
    unfolding nofail_only_def using k(1) by blast
  show "nofail_only a s (final_state (stage_fastqc e st))"
    unfolding nofail_only_def by (intro conjI smp keeps_sample k(2))
  show "nofail_only a s (final_state (stage_bam2fastq e st))"
    unfolding nofail_only_def by (intro conjI smp keeps_sample k(3))
  show "nofail_only a s (final_state (stage_trim a prj e st))"
    unfolding nofail_only_def by (intro conjI smp keeps_sample k(4))
  show "nofail_only a s (final_state (stage_map a prj e st))"
    unfolding nofail_only_def by (intro conjI smp keeps_sample k(5))
  show "nofail_only a s (final_state (stage_filter a e st))"
    unfolding nofail_only_def by (intro conjI smp keeps_sample k(6))
  show "nofail_only a s (final_state (stage_shift e st))"
    unfolding nofail_only_def by (intro conjI smp keeps_sample k(7))
  show "nofail_only a s (final_state (stage_index e st))"
    unfolding nofail_only_def by (intro conjI smp keeps_sample k(8))
  show "nofail_only a s (final_state (stage_tracks prj e st))"
    unfolding nofail_only_def by (intro conjI smp keeps_sample k(9))
  show "nofail_only a s (final_state (stage_insertsizes e st))"
    unfolding nofail_only_def by (intro conjI smp keeps_sample k(10))
  show "nofail_only a s (final_state (stage_coverage prj e st))"
    unfolding nofail_only_def by (intro conjI smp keeps_sample k(11))
  show "nofail_only a s (final_state (stage_nsc_rsc a e st))"
    unfolding nofail_only_def
    by (intro conjI smp keeps_sample nofail_step_of_nsc_rsc [OF ev pk])
  show "nofail_only a s (final_state (stage_peaks e st))"
    unfolding nofail_only_def by (intro conjI smp keeps_sample k(12))
  show "nofail_only a s (final_state (stage_frip e st))"
    unfolding nofail_only_def by (intro conjI smp keeps_sample k(13))
qed

lemma only_peakTools_nofail:
  assumes "Step c t l True r \<in> set (events (final_state (process a prj e s)))"
  shows "c = cmd_peakTools a s"
proof -
  have "nofail_only a s (initial_state s)"
    by (simp add: nofail_only_def initial_state_def exI [of _ "unmappedBam s"])
  then have "nofail_only a s (final_state (process a prj e s))"
    unfolding process_def
    by (rule run_stages_invariant) (auto intro: nofail_only_kept)
  with assms show ?thesis
    unfolding nofail_only_def by blast
qed

text \<open>No block raises the failure of a peakTools command.\<close>

lemma run_stages_not_Inl:
  assumes "list_all (\<lambda>f. \<forall>st0 st1. f st0 \<noteq> Inl (x, st1)) fs"
  shows "run_stages fs st \<noteq> Inl (x, st')"
  using assms
  by (induction fs arbitrary: st) (auto split: sum.splits)

lemma prims_not_ToolFailure:
  "timestamp m st \<noteq> Inl z"
  "clean_add p cond st \<noteq> Inl z"
  "set_unmappedBam st \<noteq> Inl z"
  "ensure_dir e d st \<noteq> Inl (ToolFailure c, st')"
  "toolkit_call e k st \<noteq> Inl (ToolFailure c, st')"
  "call_lock e cmd t l True st \<noteq> Inl (ToolFailure c, st')"
  "tool c \<noteq> tool cmd \<Longrightarrow> call_lock e cmd t l n st \<noteq> Inl (ToolFailure c, st')"
  "(\<And>v. body v st \<noteq> Inl (ToolFailure c, st')) \<Longrightarrow>
     with_key dict key body st \<noteq> Inl (ToolFailure c, st')"
  by (auto simp: timestamp_def clean_add_def set_unmappedBam_def ensure_dir_def
        toolkit_call_def call_lock_def with_key_def step_raises_def Let_def
        split: if_splits tool_outcome.splits option.splits)

lemma stage_never_fails_on_peakTools:
  assumes "tool c = ''peakTools''"
  shows "stage_merge e st \<noteq> Inl (ToolFailure c, st')"
    and "stage_fastqc e st \<noteq> Inl (ToolFailure c, st')"
    and "stage_bam2fastq e st \<noteq> Inl (ToolFailure c, st')"
    and "stage_trim a prj e st \<noteq> Inl (ToolFailure c, st')"
    and "stage_map a prj e st \<noteq> Inl (ToolFailure c, st')"
    and "stage_filter a e st \<noteq> Inl (ToolFailure c, st')"
    and "stage_shift e st \<noteq> Inl (ToolFailure c, st')"
    and "stage_index e st \<noteq> Inl (ToolFailure c, st')"
    and "stage_tracks prj e st \<noteq> Inl (ToolFailure c, st')"
    and "stage_insertsizes e st \<noteq> Inl (ToolFailure c, st')"
    and "stage_coverage prj e st \<noteq> Inl (ToolFailure c, st')"
    and "stage_nsc_rsc a e st \<noteq> Inl (ToolFailure c, st')"
    and "stage_peaks e st \<noteq> Inl (ToolFailure c, st')"
    and "stage_frip e st \<noteq> Inl (ToolFailure c, st')"
  using assms
  by (simp_all add: stage_merge_def stage_fastqc_def stage_bam2fastq_def stage_trim_def
        stage_map_def stage_filter_def stage_shift_def stage_index_def stage_tracks_def
        stage_insertsizes_def stage_coverage_def stage_nsc_rsc_def stage_peaks_def
        stage_frip_def Let_def run_stages_not_Inl prims_not_ToolFailure tool_cmd
        split: raw_input.splits
        del: run_stages.simps(2))

lemma process_never_fails_on_peakTools:
  assumes "tool c = ''peakTools''"
  shows "process a prj e s \<noteq> Inl (ToolFailure c, st)"
  unfolding process_def
  by (rule run_stages_not_Inl) (simp add: stage_never_fails_on_peakTools [OF assms])

text \<open>When the peaks directory cannot be created, the run ends with the \<open>OSError\<close>.\<close>

lemma makedirs_failure_ends_run:
  "main demo_args demo_project unwritable_env demo_sample = Unhandled (OSError ''/d/s1/p'')"
  by code_simp

section \<open>The claims\<close>

text \<open>
  Claim C1 fails on the code. The run below is the scenario sample with the tagmented
  flag off, every tool succeeding. No shiftReads step is issued, and indexBam is not
  issued for the shifted BAM, yet bamToBigWig, genomeWideCoverage, peakTools,
  macs2CallPeaksATACSeq and calculateFRiP all receive \<open>sample.filteredshifted\<close>
  (\<open>s1.fs.bam\<close>) as input; only the insert-size plot reads \<open>sample.filtered\<close>
  (\<open>s1.f.bam\<close>).
\<close>

theorem untagmented_run_reads_shifted_bam:
  "tagmented (demo_sample\<lparr>tagmented := False\<rparr>) = False
   \<and> filtered (demo_sample\<lparr>tagmented := False\<rparr>) = ''s1.f.bam''
   \<and> filteredshifted (demo_sample\<lparr>tagmented := False\<rparr>) = ''s1.fs.bam''
   \<and> drop 6 (issued (events (final_state
        (process demo_args demo_project fresh_env (demo_sample\<lparr>tagmented := False\<rparr>)))))
     = [indexBam ''s1.bam'',
        indexBam ''s1.f.bam'',
        bamToBigWig ''s1.fs.bam'' ''s1.bw'' ''/g/hg19.sizes'' ''hg19'' False True,
        addTrackToHub ''s1'' ''http://h/s1.bw'' ''/www/trackHub_hg19.txt'' ''0,0,0'',
        linkToTrackHub ''http://h/p/trackHub_hg19.txt'' ''/prj/ucsc_tracks_hg19.html'' ''hg19'',
        plotInsertSizesFit ''s1.f.bam'' ''s1.ins.pdf'' ''s1.ins.csv'',
        genomeWideCoverage ''s1.fs.bam'' ''/g/hg19.win'' ''s1.cov'',
        peakTools ''s1.fs.bam'' ''s1.qc'' ''s1.qc.pdf'' 4,
        macs2CallPeaksATACSeq ''s1.fs.bam'' ''/d/s1/p'' ''s1'' ''hg19'',
        calculateFRiP ''s1.fs.bam'' ''s1.narrowPeak'' ''s1.frip'']
   \<and> ''shiftReads'' \<notin> set (map tool (issued (events (final_state
        (process demo_args demo_project fresh_env (demo_sample\<lparr>tagmented := False\<rparr>))))))"
  by code_simp

text \<open>
  Claim C2, as amended. For every sample whose declared target artifacts all exist, a run
  that finishes executes no command of a step that declares a target: each such step is
  skipped. The link to the track hub and the insert-size plot are not steps of the
  executor; the driver calls them directly and they are executed on every run. The
  track-hub registration declares no target, only a lock name, so it is executed unless
  the executor counts a step without target as complete.
\<close>

theorem resumed_run_invocations:
  assumes "process a prj e s = Inr st"
      and "list_all (path_exists e) (declared_targets (events st))"
  shows "invoked (events st) =
           (if targetless_skipped e then [] else [cmd_addTrackToHub prj s])
           @ [call_linkToTrackHub prj s, call_plotInsertSizesFit s]"
  using assms
  by (elim process_finished)
     (simp add: invoked_append declared_targets_append is_complete_def
           split: raw_input.splits if_splits)

theorem resumed_run_invocations_witness:
  "\<not> isl (process demo_args demo_project stocked_env demo_sample)
   \<and> list_all (path_exists stocked_env)
        (declared_targets (events (final_state
           (process demo_args demo_project stocked_env demo_sample))))
   \<and> invoked (events (final_state (process demo_args demo_project stocked_env demo_sample)))
     = [call_linkToTrackHub demo_project demo_sample, call_plotInsertSizesFit demo_sample]"
proof -
  have fin: "\<not> isl (process demo_args demo_project stocked_env demo_sample)"
    by code_simp
  then obtain st where st: "process demo_args demo_project stocked_env demo_sample = Inr st"
    and fs: "final_state (process demo_args demo_project stocked_env demo_sample) = st"
    using not_isl_finished by blast
  have ex: "list_all (path_exists stocked_env) (declared_targets (events st))"
    by (simp add: stocked_env_def list_all_iff)
  from resumed_run_invocations [OF st ex] fin fs ex show ?thesis
    by (simp add: stocked_env_def)
qed

theorem second_run_still_invokes:
  "\<not> isl (process demo_args demo_project stocked_env demo_sample)
   \<and> list_all (path_exists stocked_env)
        (declared_targets (events (final_state
           (process demo_args demo_project stocked_env demo_sample))))
   \<and> invoked (events (final_state (process demo_args demo_project stocked_env demo_sample)))
     = [linkToTrackHub ''http://h/p/trackHub_hg19.txt'' ''/prj/ucsc_tracks_hg19.html'' ''hg19'',
        plotInsertSizesFit ''s1.f.bam'' ''s1.ins.pdf'' ''s1.ins.csv'']
   \<and> invoked (events (final_state (process demo_args demo_project stocked_env demo_sample)))
     \<noteq> []"
  by code_simp

text \<open>
  Claim C3, as amended. For a paired-end sample trimmed with trimmomatic (in particular
  the tagmented one with two raw input files), a run that finishes registers exactly 8
  intermediate artifacts for conditional disposal, in this order: the three fastq files
  of the conversion, the four outputs of trimmomatic and the mapped BAM. The claim says 9.
\<close>

theorem registers_eight_artifacts:
  assumes "paired s" and "trimmer a = ''trimmomatic''" and "process a prj e s = Inr st"
  shows "registry st =
           [(fastq1 s, True), (fastq2 s, True), (fastqUnpaired s, True),
            (trimmed1 s, True), (trimmed1Unpaired s, True), (trimmed2 s, True),
            (trimmed2Unpaired s, True), (mapped s, True)]
         \<and> length (registry st) = 8"
proof -
  from assms(3) obtain gi gs gw s' where
    "registry st =
           (if paired s then [(fastq1 s, True), (fastq2 s, True), (fastqUnpaired s, True)]
            else [(fastq s, True)])
           @ (if trimmer a = ''trimmomatic'' then
                (if paired s
                 then [(trimmed1 s, True), (trimmed1Unpaired s, True), (trimmed2 s, True),
                       (trimmed2Unpaired s, True)]
                 else [(trimmed s, True)])
              else if trimmer a = ''skewer'' then
                (if paired s then [(trimmed1 s, True), (trimmed2 s, True)]
                 else [(trimmed s, True)])
              else [])
           @ [(mapped s, True)]"
    by (rule process_finished)
  with assms(1,2) show ?thesis by simp
qed

theorem registers_eight_artifacts_witness:
  "paired demo_sample \<and> tagmented demo_sample \<and> trimmer demo_args = ''trimmomatic''
   \<and> \<not> isl (process demo_args demo_project fresh_env demo_sample)
   \<and> length (registry (final_state (process demo_args demo_project fresh_env demo_sample))) = 8"
proof -
  have fin: "\<not> isl (process demo_args demo_project fresh_env demo_sample)"
    by code_simp
  then obtain st where st: "process demo_args demo_project fresh_env demo_sample = Inr st"
    and fs: "final_state (process demo_args demo_project fresh_env demo_sample) = st"
    using not_isl_finished by blast
  have p: "paired demo_sample" "tagmented demo_sample" by (simp_all add: demo_sample_def)
  have t: "trimmer demo_args = ''trimmomatic''" by (simp add: demo_args_def)
  from registers_eight_artifacts [OF p(1) t st] have "length (registry st) = 8" by simp
  with fin p t fs show ?thesis by simp
qed

theorem scenario_registers_not_nine:
  "paired demo_sample \<and> tagmented demo_sample
   \<and> unmappedBam demo_sample = PathList [''/raw/a.bam'', ''/raw/b.bam'']
   \<and> trimmer demo_args = ''trimmomatic''
   \<and> \<not> isl (process demo_args demo_project fresh_env demo_sample)
   \<and> length (registry (final_state (process demo_args demo_project fresh_env demo_sample))) \<noteq> 9"
  by code_simp

text \<open>
  Claim C4, as amended. The best-effort step of the script is the signal/noise
  assessment (peakTools), the only step issued with \<open>nofail=True\<close>, not the
  fragment-size diagnostic. In every run that reaches the assessment with its target
  absent and its command failing, the step is recorded as failed and the run goes on at
  once with the peak-calling block: the marker of the block, the creation of the peaks
  directory when it is missing, and then the peak-calling step, unless creating the
  directory fails, in which case the run ends there with that \<open>OSError\<close>. No run ends
  with the failure of a peakTools command. The insert-size plot is called directly and
  without a handler: when it raises, the run ends there, before peak calling.
\<close>

theorem signal_noise_failure_does_not_abort:
  assumes "Timestamp ''Assessing signal/noise in sample''
             \<in> set (events (final_state (process a prj e s)))"
      and "\<not> path_exists e (qcPlot s)"
      and "outcome e (cmd_peakTools a s) = Fails"
  shows "(\<exists>before after.
            events (final_state (process a prj e s)) =
              before
              @ [Timestamp ''Assessing signal/noise in sample'',
                 Step (cmd_peakTools a s) (Some (qcPlot s)) None True Failed,
                 Timestamp ''Calling peaks with MACS2'']
              @ (if path_exists e (peaks_dir (dirs s)) then []
                 else [Makedirs (peaks_dir (dirs s))])
              @ (if \<not> path_exists e (peaks_dir (dirs s)) \<and> makedirs_fails e (peaks_dir (dirs s))
                 then []
                 else step_event e (cmd_macs2CallPeaksATACSeq s) (Some (peaks s)) None False
                      # after))
         \<and> (\<not> path_exists e (peaks_dir (dirs s)) \<and> makedirs_fails e (peaks_dir (dirs s))
              \<longrightarrow> (\<exists>st. process a prj e s = Inl (OSError (peaks_dir (dirs s)), st)))
         \<and> (\<forall>c st. tool c = ''peakTools'' \<longrightarrow> process a prj e s \<noteq> Inl (ToolFailure c, st))
         \<and> (\<forall>c t l r. Step c t l True r \<in> set (events (final_state (process a prj e s)))
                \<longrightarrow> c = cmd_peakTools a s)"
proof -
  define pre where
    "pre = [stage_merge e, stage_fastqc e, stage_bam2fastq e, stage_trim a prj e,
            stage_map a prj e, stage_filter a e, stage_shift e, stage_index e,
            stage_tracks prj e, stage_insertsizes e, stage_coverage prj e]"
  define st11 where "st11 = final_state (run_stages pre (initial_state s))"
  define d where "d = peaks_dir (dirs s)"
  have proc: "process a prj e s =
                (case run_stages pre (initial_state s) of
                   Inl x \<Rightarrow> Inl x
                 | Inr st' \<Rightarrow> run_stages [stage_nsc_rsc a e, stage_peaks e, stage_frip e] st')"
    using run_stages_append
      [of pre "[stage_nsc_rsc a e, stage_peaks e, stage_frip e]" "initial_state s"]
    by (simp add: process_def pre_def del: run_stages.simps)
  have marker: "Timestamp ''Assessing signal/noise in sample'' \<notin> set (events st11)"
    unfolding st11_def
    by (rule run_stages_invariant
          [where I = "\<lambda>st. Timestamp ''Assessing signal/noise in sample'' \<notin> set (events st)"])
       (auto simp: initial_state_def pre_def dest: marker_not_logged)
  have "\<exists>u. the_sample st11 = s\<lparr>unmappedBam := u\<rparr>"
    unfolding st11_def
  proof (rule run_stages_invariant [where I = "\<lambda>st. \<exists>u. the_sample st = s\<lparr>unmappedBam := u\<rparr>"])
    show "\<exists>u. the_sample (initial_state s) = s\<lparr>unmappedBam := u\<rparr>"
      by (rule exI [of _ "unmappedBam s"]) (simp add: initial_state_def)
  next
    fix f and st' :: run_state
    assume "f \<in> set pre" and "\<exists>u. the_sample st' = s\<lparr>unmappedBam := u\<rparr>"
    then show "\<exists>u. the_sample (final_state (f st')) = s\<lparr>unmappedBam := u\<rparr>"
      using stage_merge_sample [of e st']
      by (auto simp: pre_def keeps_sample)
  qed
  then obtain u where smp: "the_sample st11 = s\<lparr>unmappedBam := u\<rparr>" ..
  have tolerated: "step_raises e (cmd_peakTools a s) (Some (qcPlot s)) True = None"
    using assms(2,3) by (simp add: step_raises_def is_complete_def)
  have recorded: "step_event e (cmd_peakTools a s) (Some (qcPlot s)) None True
                    = Step (cmd_peakTools a s) (Some (qcPlot s)) None True Failed"
    using assms(2,3) by (simp add: step_event_def step_result_of_def is_complete_def)
  have reached: "run_stages pre (initial_state s) = Inr st11"
  proof (cases "run_stages pre (initial_state s)")
    case (Inl z)
    then have "final_state (process a prj e s) = st11"
      by (cases z) (simp add: proc st11_def)
    with assms(1) marker show ?thesis by simp
  next
    case (Inr st')
    then show ?thesis by (simp add: st11_def)
  qed
  then have tail: "process a prj e s =
                     run_stages [stage_nsc_rsc a e, stage_peaks e, stage_frip e] st11"
    by (simp add: proc del: run_stages.simps)
  have ev: "events (final_state (process a prj e s)) =
              events st11
              @ [Timestamp ''Assessing signal/noise in sample'',
                 Step (cmd_peakTools a s) (Some (qcPlot s)) None True Failed,
                 Timestamp ''Calling peaks with MACS2'']
              @ (if path_exists e d then [] else [Makedirs d])
              @ (if \<not> path_exists e d \<and> makedirs_fails e d then []
                 else step_event e (cmd_macs2CallPeaksATACSeq s) (Some (peaks s)) None False
                      # (if step_raises e (cmd_macs2CallPeaksATACSeq s) (Some (peaks s)) False
                             \<noteq> None
                         then []
                         else [Timestamp ''Calculating fraction of reads in peaks (FRiP)'',
                               step_event e (cmd_calculateFRiP s) (Some (frip s)) None False]))"
    unfolding tail recorded [symmetric]
    by (simp add: stage_nsc_rsc_def stage_peaks_def stage_frip_def Let_def
          run_stages_final_Cons run_stages_isl_Cons final_state_prims isl_prims log_event_def
          smp cmd_unmappedBam_update tolerated d_def
          del: run_stages.simps(2))
  have first: "\<exists>before after.
            events (final_state (process a prj e s)) =
              before
              @ [Timestamp ''Assessing signal/noise in sample'',
                 Step (cmd_peakTools a s) (Some (qcPlot s)) None True Failed,
                 Timestamp ''Calling peaks with MACS2'']
              @ (if path_exists e (peaks_dir (dirs s)) then []
                 else [Makedirs (peaks_dir (dirs s))])
              @ (if \<not> path_exists e (peaks_dir (dirs s)) \<and> makedirs_fails e (peaks_dir (dirs s))
                 then []
                 else step_event e (cmd_macs2CallPeaksATACSeq s) (Some (peaks s)) None False
                      # after)"
    by (intro exI) (rule ev [unfolded d_def])
  have second: "\<exists>st. process a prj e s = Inl (OSError (peaks_dir (dirs s)), st)"
    if "\<not> path_exists e (peaks_dir (dirs s)) \<and> makedirs_fails e (peaks_dir (dirs s))"
    unfolding tail using that
    by (simp add: stage_nsc_rsc_def stage_peaks_def Let_def timestamp_def call_lock_def
          ensure_dir_def log_event_def smp cmd_unmappedBam_update tolerated)
  have third: "\<forall>c st. tool c = ''peakTools'' \<longrightarrow> process a prj e s \<noteq> Inl (ToolFailure c, st)"
    using process_never_fails_on_peakTools by blast
  have fourth: "\<forall>c t l r. Step c t l True r \<in> set (events (final_state (process a prj e s)))
                  \<longrightarrow> c = cmd_peakTools a s"
    using only_peakTools_nofail by blast
  from first second third fourth show ?thesis by blast
qed

theorem signal_noise_failure_does_not_abort_witness:
  "Timestamp ''Assessing signal/noise in sample''
     \<in> set (events (final_state
          (process demo_args demo_project (failing_env ''peakTools'') demo_sample)))
   \<and> \<not> path_exists (failing_env ''peakTools'') (qcPlot demo_sample)
   \<and> outcome (failing_env ''peakTools'') (cmd_peakTools demo_args demo_sample) = Fails
   \<and> process demo_args demo_project (failing_env ''peakTools'') demo_sample
         \<noteq> Inl (ToolFailure (cmd_peakTools demo_args demo_sample), initial_state demo_sample)
   \<and> \<not> isl (process demo_args demo_project (failing_env ''peakTools'') demo_sample)
   \<and> drop 26 (events (final_state
        (process demo_args demo_project (failing_env ''peakTools'') demo_sample)))
     = [Timestamp ''Assessing signal/noise in sample'',
        Step (cmd_peakTools demo_args demo_sample) (Some ''s1.qc.pdf'') None True Failed,
        Timestamp ''Calling peaks with MACS2'',
        Makedirs ''/d/s1/p'',
        Step (cmd_macs2CallPeaksATACSeq demo_sample) (Some ''s1.narrowPeak'') None False
          Completed,
        Timestamp ''Calculating fraction of reads in peaks (FRiP)'',
        Step (cmd_calculateFRiP demo_sample) (Some ''s1.frip'') None False Completed]"
proof -
  have reach: "Timestamp ''Assessing signal/noise in sample''
     \<in> set (events (final_state
          (process demo_args demo_project (failing_env ''peakTools'') demo_sample)))"
    by code_simp
  have absent: "\<not> path_exists (failing_env ''peakTools'') (qcPlot demo_sample)"
    by code_simp
  have fails: "outcome (failing_env ''peakTools'') (cmd_peakTools demo_args demo_sample) = Fails"
    by code_simp
  have run: "\<not> isl (process demo_args demo_project (failing_env ''peakTools'') demo_sample)
   \<and> drop 26 (events (final_state
        (process demo_args demo_project (failing_env ''peakTools'') demo_sample)))
     = [Timestamp ''Assessing signal/noise in sample'',
        Step (cmd_peakTools demo_args demo_sample) (Some ''s1.qc.pdf'') None True Failed,
        Timestamp ''Calling peaks with MACS2'',
        Makedirs ''/d/s1/p'',
        Step (cmd_macs2CallPeaksATACSeq demo_sample) (Some ''s1.narrowPeak'') None False
          Completed,
        Timestamp ''Calculating fraction of reads in peaks (FRiP)'',
        Step (cmd_calculateFRiP demo_sample) (Some ''s1.frip'') None False Completed]"
    by code_simp
  from signal_noise_failure_does_not_abort [OF reach absent fails] have
    "\<forall>c st. tool c = ''peakTools'' \<longrightarrow>
       process demo_args demo_project (failing_env ''peakTools'') demo_sample
         \<noteq> Inl (ToolFailure c, st)"
    by blast
  then have tolerated:
    "process demo_args demo_project (failing_env ''peakTools'') demo_sample
       \<noteq> Inl (ToolFailure (cmd_peakTools demo_args demo_sample), initial_state demo_sample)"
    by (simp add: tool_cmd)
  from reach absent fails tolerated run show ?thesis by (intro conjI) simp_all
qed

theorem plot_failure_aborts:
  "main demo_args demo_project (failing_env ''plotInsertSizesFit'') demo_sample
     = Unhandled (ToolkitError (plotInsertSizesFit ''s1.f.bam'' ''s1.ins.pdf'' ''s1.ins.csv''))
   \<and> ''macs2CallPeaksATACSeq''
       \<notin> set (map tool (issued (events (final_state
            (process demo_args demo_project (failing_env ''plotInsertSizesFit'')
               demo_sample)))))"
  by code_simp

text \<open>
  Claim C5, as amended. For every sample, the calls of a run that finishes are issued in
  exactly this order: mergeBams (only with multi-file input), fastqc, bam2fastq, the
  trimmer (trimmomatic or skewer; none for any other trimmer value), bowtie2Map,
  filterReads, shiftReads (only if tagmented), indexBam on the mapped and on the filtered
  BAM (and on the shifted BAM if tagmented), bamToBigWig, addTrackToHub, linkToTrackHub,
  plotInsertSizesFit, genomeWideCoverage, peakTools, macs2CallPeaksATACSeq,
  calculateFRiP. The steps the claim lists occur in the claimed relative order, but other
  steps are interleaved: the track-hub registration and linking before the fragment-size
  diagnostic, the genome-wide coverage and the signal/noise assessment between the
  diagnostic and peak calling.
\<close>

theorem step_order:
  assumes "process a prj e s = Inr st"
  shows "map tool (issued (events st)) =
     (case unmappedBam s of PathList bams \<Rightarrow> [''mergeBams''] | Path p \<Rightarrow> [])
     @ [''fastqc'', ''bam2fastq'']
     @ (if trimmer a = ''trimmomatic'' then [''trimmomatic'']
        else if trimmer a = ''skewer'' then [''skewer''] else [])
     @ [''bowtie2Map'', ''filterReads'']
     @ (if tagmented s then [''shiftReads''] else [])
     @ [''indexBam'', ''indexBam'']
     @ (if tagmented s then [''indexBam''] else [])
     @ [''bamToBigWig'', ''addTrackToHub'', ''linkToTrackHub'', ''plotInsertSizesFit'',
        ''genomeWideCoverage'', ''peakTools'', ''macs2CallPeaksATACSeq'', ''calculateFRiP'']"
  using assms
  by (rule process_finished) (simp add: issued_append tool_cmd split: raw_input.splits)

theorem step_order_witness:
  "\<not> isl (process demo_args demo_project fresh_env demo_sample)
   \<and> map tool (issued (events (final_state (process demo_args demo_project fresh_env demo_sample))))
     = [''mergeBams'', ''fastqc'', ''bam2fastq'', ''trimmomatic'', ''bowtie2Map'',
        ''filterReads'', ''shiftReads'', ''indexBam'', ''indexBam'', ''indexBam'',
        ''bamToBigWig'', ''addTrackToHub'', ''linkToTrackHub'', ''plotInsertSizesFit'',
        ''genomeWideCoverage'', ''peakTools'', ''macs2CallPeaksATACSeq'', ''calculateFRiP'']"
proof -
  have fin: "\<not> isl (process demo_args demo_project fresh_env demo_sample)"
    by code_simp
  then obtain st where st: "process demo_args demo_project fresh_env demo_sample = Inr st"
    and fs: "final_state (process demo_args demo_project fresh_env demo_sample) = st"
    using not_isl_finished by blast
  from step_order [OF st] fin fs show ?thesis
    by (simp add: demo_sample_def demo_args_def)
qed

theorem steps_interleaved:
  "\<not> isl (process demo_args demo_project fresh_env demo_sample)
   \<and> map tool (issued (events (final_state (process demo_args demo_project fresh_env demo_sample))))
     \<noteq> [''mergeBams'', ''fastqc'', ''bam2fastq'', ''trimmomatic'', ''bowtie2Map'',
        ''filterReads'', ''shiftReads'', ''indexBam'', ''indexBam'', ''indexBam'',
        ''bamToBigWig'', ''plotInsertSizesFit'', ''macs2CallPeaksATACSeq'', ''calculateFRiP'']
   \<and> drop 10 (map tool (issued (events (final_state
         (process demo_args demo_project fresh_env demo_sample)))))
     = [''bamToBigWig'', ''addTrackToHub'', ''linkToTrackHub'', ''plotInsertSizesFit'',
        ''genomeWideCoverage'', ''peakTools'', ''macs2CallPeaksATACSeq'', ''calculateFRiP'']"
  by code_simp

text \<open>
  Claim C6. Take two runs on the same sample, project and environment, one with
  trimmomatic and one with skewer, that both finish. Their events are the same before
  and after the trimming step: only that one step differs, in its command. The events
  that follow start with the alignment step, which reads \<open>trimmed1\<close> and \<open>trimmed2\<close>
  when paired and \<open>trimmed\<close> otherwise, in both runs. The sample at the end is the same,
  and the disposal registries differ only in the registrations of the trimming block.
\<close>

theorem trimmer_choice_is_local:
  assumes "process (a\<lparr>trimmer := ''trimmomatic''\<rparr>) prj e s = Inr stA"
      and "process (a\<lparr>trimmer := ''skewer''\<rparr>) prj e s = Inr stB"
  shows "(\<exists>before after.
            events stA =
              before
              @ [step_event e (cmd_trimmomatic a prj s)
                   (Some (if paired s then trimmed1 s else trimmed s)) None False]
              @ after
          \<and> events stB =
              before
              @ [step_event e (cmd_skewer a prj s)
                   (Some (if paired s then trimmed1 s else trimmed s)) None False]
              @ after
          \<and> (\<exists>genomeIndex.
                take 2 after =
                  [Timestamp ''Mapping reads with Bowtie2'',
                   step_event e
                     (bowtie2Map
                        (if paired s then trimmed1 s else trimmed s)
                        (if paired s then Some (trimmed2 s) else None)
                        (mapped s) (alnRates s) (alnMetrics s) genomeIndex (maxinsert a)
                        (cpus a))
                     (Some (mapped s)) None False]))
         \<and> the_sample stA = the_sample stB
         \<and> registry stA =
             (if paired s then [(fastq1 s, True), (fastq2 s, True), (fastqUnpaired s, True)]
              else [(fastq s, True)])
             @ (if paired s
                then [(trimmed1 s, True), (trimmed1Unpaired s, True), (trimmed2 s, True),
                      (trimmed2Unpaired s, True)]
                else [(trimmed s, True)])
             @ [(mapped s, True)]
         \<and> registry stB =
             (if paired s then [(fastq1 s, True), (fastq2 s, True), (fastqUnpaired s, True)]
              else [(fastq s, True)])
             @ (if paired s then [(trimmed1 s, True), (trimmed2 s, True)]
                else [(trimmed s, True)])
             @ [(mapped s, True)]"
proof -
  define k where "k = (case unmappedBam s of Path p \<Rightarrow> 5 | PathList bams \<Rightarrow> (7::nat))"
  define tgt where "tgt = Some (if paired s then trimmed1 s else trimmed s)"
  from assms have parts:
    "take 1 (drop k (events stA)) = [step_event e (cmd_trimmomatic a prj s) tgt None False]"
    "take 1 (drop k (events stB)) = [step_event e (cmd_skewer a prj s) tgt None False]"
    "take k (events stB) = take k (events stA)"
    "drop (k + 1) (events stB) = drop (k + 1) (events stA)"
    by (elim process_finished; simp add: k_def tgt_def cmd_trimmer_update split: raw_input.splits)+
  from assms(1) have align:
    "\<exists>genomeIndex.
       take 2 (drop (k + 1) (events stA)) =
         [Timestamp ''Mapping reads with Bowtie2'',
          step_event e
            (bowtie2Map
               (if paired s then trimmed1 s else trimmed s)
               (if paired s then Some (trimmed2 s) else None)
               (mapped s) (alnRates s) (alnMetrics s) genomeIndex (maxinsert a) (cpus a))
            (Some (mapped s)) None False]"
    by (elim process_finished)
       (auto simp add: k_def cmd_trimmer_update cmd_bowtie2Map_def split: raw_input.splits)
  have A: "events stA =
             take k (events stA) @ [step_event e (cmd_trimmomatic a prj s) tgt None False]
             @ drop (k + 1) (events stA)"
    using parts(1) by (rule take_drop_split)
  have "events stB =
             take k (events stB) @ [step_event e (cmd_skewer a prj s) tgt None False]
             @ drop (k + 1) (events stB)"
    using parts(2) by (rule take_drop_split)
  then have B: "events stB =
             take k (events stA) @ [step_event e (cmd_skewer a prj s) tgt None False]
             @ drop (k + 1) (events stA)"
    by (simp only: parts(3,4))
  from A B align have ev:
    "\<exists>before after.
            events stA =
              before
              @ [step_event e (cmd_trimmomatic a prj s)
                   (Some (if paired s then trimmed1 s else trimmed s)) None False]
              @ after
          \<and> events stB =
              before
              @ [step_event e (cmd_skewer a prj s)
                   (Some (if paired s then trimmed1 s else trimmed s)) None False]
              @ after
          \<and> (\<exists>genomeIndex.
                take 2 after =
                  [Timestamp ''Mapping reads with Bowtie2'',
                   step_event e
                     (bowtie2Map
                        (if paired s then trimmed1 s else trimmed s)
                        (if paired s then Some (trimmed2 s) else None)
                        (mapped s) (alnRates s) (alnMetrics s) genomeIndex (maxinsert a)
                        (cpus a))
                     (Some (mapped s)) None False])"
    unfolding tgt_def by blast
  from assms have rest:
    "the_sample stA = the_sample stB"
    "registry stA =
             (if paired s then [(fastq1 s, True), (fastq2 s, True), (fastqUnpaired s, True)]
              else [(fastq s, True)])
             @ (if paired s
                then [(trimmed1 s, True), (trimmed1Unpaired s, True), (trimmed2 s, True),
                      (trimmed2Unpaired s, True)]
                else [(trimmed s, True)])
             @ [(mapped s, True)]"
    "registry stB =
             (if paired s then [(fastq1 s, True), (fastq2 s, True), (fastqUnpaired s, True)]
              else [(fastq s, True)])
             @ (if paired s then [(trimmed1 s, True), (trimmed2 s, True)]
                else [(trimmed s, True)])
             @ [(mapped s, True)]"
    by (elim process_finished; simp)+
  from ev rest show ?thesis by blast
qed

theorem trimmer_choice_is_local_witness:
  "\<not> isl (process (demo_args\<lparr>trimmer := ''trimmomatic''\<rparr>) demo_project fresh_env demo_sample)
   \<and> \<not> isl (process (demo_args\<lparr>trimmer := ''skewer''\<rparr>) demo_project fresh_env demo_sample)
   \<and> the_sample (final_state
        (process (demo_args\<lparr>trimmer := ''trimmomatic''\<rparr>) demo_project fresh_env demo_sample))
     = the_sample (final_state
        (process (demo_args\<lparr>trimmer := ''skewer''\<rparr>) demo_project fresh_env demo_sample))
   \<and> registry (final_state
        (process (demo_args\<lparr>trimmer := ''skewer''\<rparr>) demo_project fresh_env demo_sample))
     = [(''s1.1.fq'', True), (''s1.2.fq'', True), (''s1.u.fq'', True),
        (''s1.1.t.fq'', True), (''s1.2.t.fq'', True), (''s1.bam'', True)]"
proof -
  have finA: "\<not> isl (process (demo_args\<lparr>trimmer := ''trimmomatic''\<rparr>) demo_project fresh_env
                       demo_sample)"
    by code_simp
  then obtain stA where
        stA: "process (demo_args\<lparr>trimmer := ''trimmomatic''\<rparr>) demo_project fresh_env
                demo_sample = Inr stA"
    and fsA: "final_state (process (demo_args\<lparr>trimmer := ''trimmomatic''\<rparr>) demo_project
                fresh_env demo_sample) = stA"
    using not_isl_finished by blast
  have finB: "\<not> isl (process (demo_args\<lparr>trimmer := ''skewer''\<rparr>) demo_project fresh_env
                       demo_sample)"
    by code_simp
  then obtain stB where
        stB: "process (demo_args\<lparr>trimmer := ''skewer''\<rparr>) demo_project fresh_env
                demo_sample = Inr stB"
    and fsB: "final_state (process (demo_args\<lparr>trimmer := ''skewer''\<rparr>) demo_project
                fresh_env demo_sample) = stB"
    using not_isl_finished by blast
  from trimmer_choice_is_local [OF stA stB] have
    "the_sample stA = the_sample stB"
    "registry stB =
       (if paired demo_sample
        then [(fastq1 demo_sample, True), (fastq2 demo_sample, True),
              (fastqUnpaired demo_sample, True)]
        else [(fastq demo_sample, True)])
       @ (if paired demo_sample
          then [(trimmed1 demo_sample, True), (trimmed2 demo_sample, True)]
          else [(trimmed demo_sample, True)])
       @ [(mapped demo_sample, True)]"
    by blast+
  with finA finB fsA fsB show ?thesis
    by (simp add: demo_sample_def)
qed

text \<open>
  Claim C7. For a sample whose raw input is a list of files, a run that finishes starts
  with the merge step, from the list to \<open>sample.unmapped\<close>; afterwards
  \<open>sample.unmappedBam\<close> is \<open>sample.unmapped\<close>, and this is the input of the quality
  report and of the format conversion, the next two calls. For a single-file input no
  merge step is issued, the sample is unchanged and the two calls read the file itself.
\<close>

theorem merge_first:
  assumes "process a prj e s = Inr st"
  shows "case unmappedBam s of
           PathList bams \<Rightarrow>
             take 2 (events st) =
               [Timestamp ''Merging bam files from replicates'',
                step_event e (mergeBams bams (unmapped s)) (Some (unmapped s)) None False]
             \<and> unmappedBam (the_sample st) = Path (unmapped s)
             \<and> take 3 (issued (events st)) =
                 [mergeBams bams (unmapped s),
                  fastqc (Path (unmapped s)) (sampleRoot (dirs s)) (name s),
                  bam2fastq (Path (unmapped s))
                    (if paired s then fastq1 s else fastq s)
                    (if paired s then Some (fastq2 s) else None)
                    (if paired s then Some (fastqUnpaired s) else None)]
         | Path p \<Rightarrow>
             ''mergeBams'' \<notin> set (map tool (issued (events st)))
             \<and> the_sample st = s
             \<and> take 2 (issued (events st)) =
                 [fastqc (Path p) (sampleRoot (dirs s)) (name s),
                  bam2fastq (Path p)
                    (if paired s then fastq1 s else fastq s)
                    (if paired s then Some (fastq2 s) else None)
                    (if paired s then Some (fastqUnpaired s) else None)]"
  using assms
  by (rule process_finished)
     (simp add: issued_append tool_cmd cmd_mergeBams_def cmd_fastqc_def cmd_bam2fastq_def
           split: raw_input.splits)

theorem merge_first_witness:
  "\<not> isl (process demo_args demo_project fresh_env demo_sample)
   \<and> unmappedBam (the_sample (final_state (process demo_args demo_project fresh_env demo_sample)))
       = Path ''/d/s1/u/s1.bam''
   \<and> take 3 (issued (events (final_state (process demo_args demo_project fresh_env demo_sample))))
       = [mergeBams [''/raw/a.bam'', ''/raw/b.bam''] ''/d/s1/u/s1.bam'',
          fastqc (Path ''/d/s1/u/s1.bam'') ''/d/s1'' ''s1'',
          bam2fastq (Path ''/d/s1/u/s1.bam'') ''s1.1.fq'' (Some ''s1.2.fq'') (Some ''s1.u.fq'')]"
proof -
  have fin: "\<not> isl (process demo_args demo_project fresh_env demo_sample)"
    by code_simp
  then obtain st where st: "process demo_args demo_project fresh_env demo_sample = Inr st"
    and fs: "final_state (process demo_args demo_project fresh_env demo_sample) = st"
    using not_isl_finished by blast
  from merge_first [OF st] fin fs show ?thesis
    by (simp add: demo_sample_def)
qed

text \<open>
  Claim C8, as amended. In every run, finished or not, the driver changes no field of the
  sample descriptor other than \<open>unmappedBam\<close>: the descriptor at the end is the one at
  the start, or, for a multi-file input once the merge step has passed, the one at the
  start with \<open>unmappedBam\<close> overwritten by \<open>sample.unmapped\<close>. The list of raw input
  paths is then no longer in the descriptor, and no path is added. In particular the
  paired and tagmented flags and the genome identifier are unchanged.
\<close>

theorem sample_changes_only_unmappedBam:
  "(the_sample (final_state (process a prj e s)) = s
    \<or> (\<exists>bams. unmappedBam s = PathList bams)
      \<and> the_sample (final_state (process a prj e s)) = s\<lparr>unmappedBam := Path (unmapped s)\<rparr>)
   \<and> paired (the_sample (final_state (process a prj e s))) = paired s
   \<and> tagmented (the_sample (final_state (process a prj e s))) = tagmented s
   \<and> genome (the_sample (final_state (process a prj e s))) = genome s"
proof -
  have "the_sample (final_state (process a prj e s)) = s
    \<or> (\<exists>bams. unmappedBam s = PathList bams)
      \<and> the_sample (final_state (process a prj e s)) = s\<lparr>unmappedBam := Path (unmapped s)\<rparr>"
    using stage_merge_sample [of e "initial_state s"]
    by (simp add: process_sample initial_state_def)
  then show ?thesis by auto
qed

theorem raw_input_paths_dropped:
  "''/raw/a.bam'' \<in> set (known_paths demo_sample)
   \<and> ''/raw/a.bam'' \<notin> set (known_paths (the_sample (final_state
        (process demo_args demo_project fresh_env demo_sample))))"
  by code_simp

text \<open>
  Claim C9, as amended. The script ends with status 0 exactly when \<open>process\<close> raises
  nothing, and with status 1 otherwise: the handler of \<open>KeyboardInterrupt\<close> exits with 1,
  and any other exception leaves \<open>main\<close> unhandled, which ends the interpreter with
  status 1 as well. So the status of an interruption is non-zero but is not distinct from
  the status of a step failure.
\<close>

theorem exit_status_zero_or_one:
  "exit_status a prj e s = (if isl (process a prj e s) then 1 else 0)"
  by (cases "process a prj e s")
     (auto simp: exit_status_def main_def split: raised.splits)

theorem interruption_status_not_distinct:
  "main demo_args demo_project (failing_env ''bowtie2Map'') demo_sample
     = Unhandled (ToolFailure
         (bowtie2Map ''s1.1.t.fq'' (Some ''s1.2.t.fq'') ''s1.bam'' ''s1.alnRates''
            ''s1.alnMetrics'' ''/g/hg19'' 2000 4))
   \<and> main demo_args demo_project (interrupted_env ''bowtie2Map'') demo_sample
     = Unhandled KeyboardInterrupt
   \<and> exit_status demo_args demo_project (interrupted_env ''bowtie2Map'') demo_sample
     = exit_status demo_args demo_project (failing_env ''bowtie2Map'') demo_sample"
  by code_simp

text \<open>
  Claim C10. For a trimmer value other than \<open>"trimmomatic"\<close> and \<open>"skewer"\<close>, a run that
  finishes issues no trimming command and registers no trimmed file for disposal (the
  registry holds the fastq files of the conversion and the mapped BAM only); after the
  progress marker of the trimming block the driver goes straight to the alignment step,
  which reads the trimmed paths all the same.
\<close>

theorem unknown_trimmer_skips_trimming:
  assumes "trimmer a \<noteq> ''trimmomatic''" and "trimmer a \<noteq> ''skewer''"
      and "process a prj e s = Inr st"
  shows "''trimmomatic'' \<notin> set (map tool (issued (events st)))
         \<and> ''skewer'' \<notin> set (map tool (issued (events st)))
         \<and> registry st =
             (if paired s then [(fastq1 s, True), (fastq2 s, True), (fastqUnpaired s, True)]
              else [(fastq s, True)])
             @ [(mapped s, True)]
         \<and> (\<exists>before after genomeIndex.
               events st =
                 before
                 @ [Timestamp ''Trimming adapters from sample'',
                    Timestamp ''Mapping reads with Bowtie2'',
                    step_event e
                      (bowtie2Map
                         (if paired s then trimmed1 s else trimmed s)
                         (if paired s then Some (trimmed2 s) else None)
                         (mapped s) (alnRates s) (alnMetrics s) genomeIndex (maxinsert a)
                         (cpus a))
                      (Some (mapped s)) None False]
                 @ after)"
proof -
  define k where "k = (case unmappedBam s of Path p \<Rightarrow> 4 | PathList bams \<Rightarrow> (6::nat))"
  from assms have
    "\<exists>genomeIndex.
       take 3 (drop k (events st)) =
         [Timestamp ''Trimming adapters from sample'',
          Timestamp ''Mapping reads with Bowtie2'',
          step_event e
            (bowtie2Map
               (if paired s then trimmed1 s else trimmed s)
               (if paired s then Some (trimmed2 s) else None)
               (mapped s) (alnRates s) (alnMetrics s) genomeIndex (maxinsert a) (cpus a))
            (Some (mapped s)) None False]"
    by (elim process_finished) (auto simp add: k_def cmd_bowtie2Map_def split: raw_input.splits)
  then obtain genomeIndex where
    "events st =
       take k (events st)
       @ [Timestamp ''Trimming adapters from sample'',
          Timestamp ''Mapping reads with Bowtie2'',
          step_event e
            (bowtie2Map
               (if paired s then trimmed1 s else trimmed s)
               (if paired s then Some (trimmed2 s) else None)
               (mapped s) (alnRates s) (alnMetrics s) genomeIndex (maxinsert a) (cpus a))
            (Some (mapped s)) None False]
       @ drop (k + 3) (events st)"
    using take_drop_split by metis
  then have "\<exists>before after genomeIndex.
               events st =
                 before
                 @ [Timestamp ''Trimming adapters from sample'',
                    Timestamp ''Mapping reads with Bowtie2'',
                    step_event e
                      (bowtie2Map
                         (if paired s then trimmed1 s else trimmed s)
                         (if paired s then Some (trimmed2 s) else None)
                         (mapped s) (alnRates s) (alnMetrics s) genomeIndex (maxinsert a)
                         (cpus a))
                      (Some (mapped s)) None False]
                 @ after"
    by blast
  moreover from assms have
    "''trimmomatic'' \<notin> set (map tool (issued (events st)))
     \<and> ''skewer'' \<notin> set (map tool (issued (events st)))
     \<and> registry st =
         (if paired s then [(fastq1 s, True), (fastq2 s, True), (fastqUnpaired s, True)]
          else [(fastq s, True)])
         @ [(mapped s, True)]"
    by (elim process_finished) (simp add: issued_append tool_cmd split: raw_input.splits)
  ultimately show ?thesis by blast
qed

theorem unknown_trimmer_skips_trimming_witness:
  "trimmer (demo_args\<lparr>trimmer := ''cutadapt''\<rparr>) \<noteq> ''trimmomatic''
   \<and> trimmer (demo_args\<lparr>trimmer := ''cutadapt''\<rparr>) \<noteq> ''skewer''
   \<and> \<not> isl (process (demo_args\<lparr>trimmer := ''cutadapt''\<rparr>) demo_project fresh_env demo_sample)
   \<and> registry (final_state
        (process (demo_args\<lparr>trimmer := ''cutadapt''\<rparr>) demo_project fresh_env demo_sample))
       = [(''s1.1.fq'', True), (''s1.2.fq'', True), (''s1.u.fq'', True), (''s1.bam'', True)]
   \<and> ''trimmomatic'' \<notin> set (map tool (issued (events (final_state
        (process (demo_args\<lparr>trimmer := ''cutadapt''\<rparr>) demo_project fresh_env demo_sample)))))"
proof -
  have fin: "\<not> isl (process (demo_args\<lparr>trimmer := ''cutadapt''\<rparr>) demo_project fresh_env
                      demo_sample)"
    by code_simp
  then obtain st where
        st: "process (demo_args\<lparr>trimmer := ''cutadapt''\<rparr>) demo_project fresh_env demo_sample
               = Inr st"
    and fs: "final_state (process (demo_args\<lparr>trimmer := ''cutadapt''\<rparr>) demo_project fresh_env
               demo_sample) = st"
    using not_isl_finished by blast
  have t: "trimmer (demo_args\<lparr>trimmer := ''cutadapt''\<rparr>) \<noteq> ''trimmomatic''"
    "trimmer (demo_args\<lparr>trimmer := ''cutadapt''\<rparr>) \<noteq> ''skewer''"
    by simp_all
  from unknown_trimmer_skips_trimming [OF t st] fin fs t show ?thesis
    by (simp add: demo_sample_def)
qed

end
